theory Spec2Isabelle
  imports Main "HOL-Library.Multiset"
begin

section \<open>Data model\<close>

text \<open>
  The persisted entities of the job board (\<^verbatim>\<open>authentication/models.py\<close>,
  \<^verbatim>\<open>jobs/models.py\<close>, \<^verbatim>\<open>applications/models.py\<close>). Primary keys of
  \<^verbatim>\<open>User\<close> and \<^verbatim>\<open>JobPosting\<close> are UUIDs, used only as opaque identities;
  a foreign key is stored as the key of the row it points to, and two model instances are
  equal in Django exactly when their primary keys are. The \<open>password\<close> column holds
  the hash. The role is a free string column
  (its model default is \<^verbatim>\<open>'user'\<close>), so every \<^verbatim>\<open>else\<close> branch of the
  role dispatch stays reachable.
\<close>

type_synonym uuid = nat

record user =
  uid :: uuid
  email :: string
  password :: string
  first_name :: string
  last_name :: string
  phone_number :: "string option"
  role :: string
  is_email_verified :: bool

record job_posting =
  job_id :: uuid
  title :: string
  description :: string
  category :: string
  job_type :: string
  salary :: int
  location :: "uuid option"
  employer :: uuid
  created_at :: nat
  updated_at :: nat
  is_active :: bool

record job_application =
  app_id :: nat
  job :: uuid
  job_seeker :: uuid
  status :: string
  applied_at :: nat

record job_seeker_profile =
  jsp_user :: uuid
  resume :: "string option"
  skills :: string
  experience :: int

record employer_profile =
  ep_user :: uuid
  company_name :: "string option"
  website :: "string option"
  bio :: "string option"

record verification_token =
  vt_id :: nat
  vt_user :: uuid
  token :: uuid

definition STATUS_CHOICES :: "string list" where
  "STATUS_CHOICES = [''submitted'', ''reviewed'', ''accepted'', ''rejected'']"

definition ROLE_CHOICES :: "string list" where
  "ROLE_CHOICES = [''admin'', ''job_seeker'', ''employer'']"

text \<open>
  Tasks handed to the Celery queue by \<^verbatim>\<open>.delay(...)\<close>
  (\<^verbatim>\<open>applications/tasks.py\<close>, \<^verbatim>\<open>authentication/tasks.py\<close>).
\<close>

datatype task =
    Send_application_submitted_email string string
  | Send_application_accepted_email string string
  | Send_verification_email uuid uuid

text \<open>
  Failures. \<open>ValidationError\<close>, \<open>NotAuthenticated\<close>, \<open>Forbidden\<close>
  (DRF's \<^verbatim>\<open>PermissionDenied\<close>) and \<open>NotFound\<close> (\<^verbatim>\<open>Http404\<close>) are the
  exceptions the REST framework turns into 400, 401, 403 and 404 responses. \<open>Conflict\<close>
  is the error kind of the specification; the error type has it so that statements can speak
  about it. \<open>Uncaught e\<close> is a Python exception that no handler of the repository
  catches: the request ends as a generic server failure.
\<close>

datatype exn = IntegrityError | DoesNotExist | AttributeError | KeyError | TypeError | ValueError

datatype error =
    ValidationError
  | NotAuthenticated
  | Forbidden
  | NotFound
  | Conflict
  | Uncaught exn

datatype http_method = GET | POST | PUT | PATCH | DELETE

text \<open>
  The store: the tables, the sequence of the integer key of \<^verbatim>\<open>JobApplication\<close>,
  the cache entry \<^verbatim>\<open>'active_jobs_queryset'\<close> with its expiry time, and the queue
  of dispatched tasks.
\<close>

record db =
  users :: "user list"
  job_seeker_profiles :: "job_seeker_profile list"
  employer_profiles :: "employer_profile list"
  verification_tokens :: "verification_token list"
  next_token_id :: nat
  jobs :: "job_posting list"
  applications :: "job_application list"
  next_app_id :: nat
  active_jobs_cache :: "(job_posting list \<times> nat) option"
  outbox :: "task list"

definition find_user :: "db \<Rightarrow> uuid \<Rightarrow> user option" where
  "find_user st i = find (\<lambda>u. uid u = i) (users st)"

definition find_job :: "db \<Rightarrow> uuid \<Rightarrow> job_posting option" where
  "find_job st i = find (\<lambda>j. job_id j = i) (jobs st)"

definition find_application :: "db \<Rightarrow> nat \<Rightarrow> job_application option" where
  "find_application st k = find (\<lambda>a. app_id a = k) (applications st)"

section \<open>Permission classes\<close>

text \<open>
  \<^verbatim>\<open>authentication/permissions.py\<close> and the framework's \<^verbatim>\<open>IsAuthenticated\<close>.
  The request's user is \<open>None\<close> for an anonymous request. A class that does not define
  \<^verbatim>\<open>has_permission\<close> or \<^verbatim>\<open>has_object_permission\<close> inherits the answer
  \<^verbatim>\<open>True\<close> from \<^verbatim>\<open>BasePermission\<close>.
\<close>

datatype permission = IsAuthenticated | IsAdminUser | IsEmployer | IsJobSeeker | IsJobOwner

fun has_permission :: "permission \<Rightarrow> user option \<Rightarrow> bool" where
  "has_permission IsAuthenticated u = (u \<noteq> None)"
| "has_permission IsAdminUser u = (case u of None \<Rightarrow> False | Some x \<Rightarrow> role x = ''admin'')"
| "has_permission IsEmployer u = (case u of None \<Rightarrow> False | Some x \<Rightarrow> role x = ''employer'')"
| "has_permission IsJobSeeker u = (case u of None \<Rightarrow> False | Some x \<Rightarrow> role x = ''job_seeker'')"
| "has_permission IsJobOwner u = True"

fun has_object_permission :: "permission \<Rightarrow> user option \<Rightarrow> job_posting \<Rightarrow> bool" where
  "has_object_permission IsJobOwner u obj =
     (case u of None \<Rightarrow> False | Some x \<Rightarrow> uid x = employer obj)"
| "has_object_permission p u obj = True"

text \<open>
  \<^verbatim>\<open>APIView.permission_denied\<close>: 401 for a request that did not authenticate,
  403 otherwise.
\<close>

definition permission_denied :: "user option \<Rightarrow> error" where
  "permission_denied u = (case u of None \<Rightarrow> NotAuthenticated | Some x \<Rightarrow> Forbidden)"

fun check_permissions :: "permission list \<Rightarrow> user option \<Rightarrow> error option" where
  "check_permissions [] u = None"
| "check_permissions (p # ps) u =
     (if has_permission p u then check_permissions ps u else Some (permission_denied u))"

fun check_object_permissions ::
  "permission list \<Rightarrow> user option \<Rightarrow> job_posting \<Rightarrow> error option" where
  "check_object_permissions [] u obj = None"
| "check_object_permissions (p # ps) u obj =
     (if has_object_permission p u obj then check_object_permissions ps u obj
      else Some (permission_denied u))"

text \<open>
  Python's \<^verbatim>\<open>a or b\<close> on two permission instances: an instance of a class without
  \<^verbatim>\<open>__bool__\<close> or \<^verbatim>\<open>__len__\<close> is truthy, so the expression is its left
  operand.
\<close>

definition truthy :: "permission \<Rightarrow> bool" where
  "truthy p = True"

definition py_or :: "permission \<Rightarrow> permission \<Rightarrow> permission" where
  "py_or a b = (if truthy a then a else b)"

section \<open>Applications\<close>

subsection \<open>JobApplicationSerializer\<close>

text \<open>
  The request body as the serializer reads it: the writable fields are \<^verbatim>\<open>job_id\<close>
  (a primary-key field over \<^verbatim>\<open>JobPosting.objects.all()\<close>, stored under
  \<^verbatim>\<open>job\<close>) and \<^verbatim>\<open>status\<close> (a choice field, not required because the
  model column has a default); \<^verbatim>\<open>job_seeker\<close> and \<^verbatim>\<open>applied_at\<close> are
  read-only. A field is \<open>None\<close> when the body does not carry it.
\<close>

record application_data =
  data_job_id :: "uuid option"
  data_status :: "string option"

record validated_data =
  v_job :: "job_posting option"
  v_status :: "string option"

text \<open>
  Field validation. A missing \<^verbatim>\<open>job_id\<close> is an error unless the update is partial;
  a key without a posting is an error (no filter on \<^verbatim>\<open>is_active\<close>: every posting
  is eligible); a status outside the choices is an error.
\<close>

definition to_internal_value ::
  "db \<Rightarrow> bool \<Rightarrow> application_data \<Rightarrow> error + validated_data" where
  "to_internal_value st partial d =
     (case data_job_id d of
        None \<Rightarrow>
          if \<not> partial then Inl ValidationError
          else (case data_status d of
                  None \<Rightarrow> Inr \<lparr>v_job = None, v_status = None\<rparr>
                | Some s \<Rightarrow>
                    if s \<in> set STATUS_CHOICES then Inr \<lparr>v_job = None, v_status = Some s\<rparr>
                    else Inl ValidationError)
      | Some i \<Rightarrow>
          (case find_job st i of
             None \<Rightarrow> Inl ValidationError
           | Some j \<Rightarrow>
               (case data_status d of
                  None \<Rightarrow> Inr \<lparr>v_job = Some j, v_status = None\<rparr>
                | Some s \<Rightarrow>
                    if s \<in> set STATUS_CHOICES then Inr \<lparr>v_job = Some j, v_status = Some s\<rparr>
                    else Inl ValidationError)))"

text \<open>
  \<^verbatim>\<open>JobApplicationSerializer.validate\<close>: on POST by an authenticated user, the
  posting's employer must not be the user. \<^verbatim>\<open>data['job']\<close> on a dictionary
  without the key raises \<^verbatim>\<open>KeyError\<close>.
\<close>

definition validate ::
  "user option \<Rightarrow> http_method \<Rightarrow> validated_data \<Rightarrow> error + validated_data" where
  "validate actor m d =
     (case actor of
        None \<Rightarrow> Inr d
      | Some u \<Rightarrow>
          if m = POST then
            (case v_job d of
               None \<Rightarrow> Inl (Uncaught KeyError)
             | Some j \<Rightarrow> if employer j = uid u then Inl ValidationError else Inr d)
          else Inr d)"

definition is_valid ::
  "db \<Rightarrow> user option \<Rightarrow> http_method \<Rightarrow> bool \<Rightarrow> application_data \<Rightarrow> error + validated_data" where
  "is_valid st actor m partial d =
     (case to_internal_value st partial d of
        Inl e \<Rightarrow> Inl e
      | Inr v \<Rightarrow> validate actor m v)"

subsection \<open>Writing rows under the unique constraint\<close>

text \<open>
  \<^verbatim>\<open>unique_together = ('job', 'job_seeker')\<close> is an index of the table: an INSERT or
  UPDATE that would give two rows the same pair raises \<^verbatim>\<open>IntegrityError\<close>. The
  serializer adds no validator of its own for the pair, because \<^verbatim>\<open>job_seeker\<close> is a
  read-only field without default, and nothing in the views catches the exception.
\<close>

definition unique_together :: "job_application list \<Rightarrow> bool" where
  "unique_together apps = distinct (map (\<lambda>a. (job a, job_seeker a)) apps)"

text \<open>
  What the table of applications satisfies in every store the operations produce: the
  pairs are distinct, the keys are distinct, and every key is below the sequence.
\<close>

definition applications_ok :: "db \<Rightarrow> bool" where
  "applications_ok st =
     (unique_together (applications st) \<and> distinct (map app_id (applications st)) \<and>
      list_all (\<lambda>a. app_id a < next_app_id st) (applications st))"

definition insert_application ::
  "db \<Rightarrow> job_application \<Rightarrow> (error + job_application) \<times> db" where
  "insert_application st a =
     (if \<exists>b \<in> set (applications st). job b = job a \<and> job_seeker b = job_seeker a
      then (Inl (Uncaught IntegrityError), st)
      else (Inr a, st\<lparr>applications := applications st @ [a],
                       next_app_id := Suc (next_app_id st)\<rparr>))"

definition update_application ::
  "db \<Rightarrow> job_application \<Rightarrow> (error + job_application) \<times> db" where
  "update_application st a =
     (if \<exists>b \<in> set (applications st).
           app_id b \<noteq> app_id a \<and> job b = job a \<and> job_seeker b = job_seeker a
      then (Inl (Uncaught IntegrityError), st)
      else (Inr a, st\<lparr>applications :=
                         map (\<lambda>b. if app_id b = app_id a then a else b) (applications st)\<rparr>))"

text \<open>
  \<^verbatim>\<open>serializer.save(job_seeker=user)\<close> on a new instance: the validated fields and
  the keyword go to \<^verbatim>\<open>JobApplication.objects.create\<close>; a field that is absent takes
  the column default.
\<close>

definition perform_create ::
  "db \<Rightarrow> nat \<Rightarrow> user \<Rightarrow> job_posting \<Rightarrow> string option \<Rightarrow> (error + job_application) \<times> db" where
  "perform_create st now u j s =
     insert_application st
       \<lparr>app_id = next_app_id st, job = job_id j, job_seeker = uid u,
        status = (case s of None \<Rightarrow> ''submitted'' | Some x \<Rightarrow> x), applied_at = now\<rparr>"

text \<open>
  \<^verbatim>\<open>serializer.save()\<close> on an existing instance: every validated field is assigned
  to the instance, which is then saved.
\<close>

definition perform_update ::
  "db \<Rightarrow> job_application \<Rightarrow> validated_data \<Rightarrow> (error + job_application) \<times> db" where
  "perform_update st instance v =
     update_application st
       (instance\<lparr>job := (case v_job v of None \<Rightarrow> job instance | Some j \<Rightarrow> job_id j),
                 status := (case v_status v of None \<Rightarrow> status instance | Some x \<Rightarrow> x)\<rparr>)"

subsection \<open>JobApplicationListCreate\<close>

definition list_create_get_permissions :: "http_method \<Rightarrow> permission list" where
  "list_create_get_permissions m = (if m = POST then [IsJobSeeker] else [IsAuthenticated])"

text \<open>
  \<^verbatim>\<open>JobApplicationListCreate.post\<close>: permissions, validation, creation, then the
  "application submitted" task for the requesting user's address.
\<close>

definition post ::
  "db \<Rightarrow> nat \<Rightarrow> user option \<Rightarrow> application_data \<Rightarrow> (error + job_application) \<times> db" where
  "post st now actor d =
     (case check_permissions (list_create_get_permissions POST) actor of
        Some e \<Rightarrow> (Inl e, st)
      | None \<Rightarrow>
          (case actor of
             None \<Rightarrow> (Inl NotAuthenticated, st)
           | Some u \<Rightarrow>
               (case is_valid st actor POST False d of
                  Inl e \<Rightarrow> (Inl e, st)
                | Inr v \<Rightarrow>
                    (case v_job v of
                       None \<Rightarrow> (Inl (Uncaught KeyError), st)
                     | Some j \<Rightarrow>
                         (case perform_create st now u j (v_status v) of
                            (Inl e, st') \<Rightarrow> (Inl e, st')
                          | (Inr a, st') \<Rightarrow>
                              (Inr a, st'\<lparr>outbox := outbox st' @
                                 [Send_application_submitted_email (email u) (title j)]\<rparr>))))))"

text \<open>\<^verbatim>\<open>JobApplicationListCreate.get_queryset\<close>, behind \<^verbatim>\<open>IsAuthenticated\<close>.\<close>

definition applications_get_queryset :: "db \<Rightarrow> user \<Rightarrow> job_application list" where
  "applications_get_queryset st u =
     (if role u = ''job_seeker'' then filter (\<lambda>a. job_seeker a = uid u) (applications st)
      else if role u = ''employer'' then
        filter (\<lambda>a. case find_job st (job a) of None \<Rightarrow> False | Some j \<Rightarrow> employer j = uid u)
          (applications st)
      else if role u = ''admin'' then applications st
      else [])"

subsection \<open>JobApplicationDetail\<close>

definition detail_get_permissions :: "http_method \<Rightarrow> permission list" where
  "detail_get_permissions m =
     (if m = GET then [IsAuthenticated]
      else if m = PUT then [IsAuthenticated, py_or IsEmployer IsAdminUser]
      else [IsAuthenticated])"

text \<open>
  \<^verbatim>\<open>JobApplicationDetail.get_object\<close>. The inherited lookup answers 404 for a key
  without a row; the object-level checks of the permission classes in use here are the
  inherited \<^verbatim>\<open>True\<close>. Then the role dispatch of the view, in its order;
  \<^verbatim>\<open>obj.job\<close> is read only on the employer branch.
\<close>

definition get_object ::
  "db \<Rightarrow> user option \<Rightarrow> nat \<Rightarrow> error + job_application" where
  "get_object st actor pk =
     (case find_application st pk of
        None \<Rightarrow> Inl NotFound
      | Some obj \<Rightarrow>
          (case actor of
             None \<Rightarrow> Inl (Uncaught AttributeError)
           | Some u \<Rightarrow>
               if role u = ''job_seeker'' \<and> job_seeker obj \<noteq> uid u then Inl Forbidden
               else if role u = ''employer'' then
                 (case find_job st (job obj) of
                    None \<Rightarrow> Inl (Uncaught DoesNotExist)
                  | Some j \<Rightarrow> if employer j \<noteq> uid u then Inl Forbidden else Inr obj)
               else if role u = ''admin'' then Inr obj
               else Inr obj))"

text \<open>\<^verbatim>\<open>JobApplicationDetail.put\<close>: a partial update and nothing else.\<close>

definition put ::
  "db \<Rightarrow> user option \<Rightarrow> nat \<Rightarrow> application_data \<Rightarrow> (error + job_application) \<times> db" where
  "put st actor pk d =
     (case check_permissions (detail_get_permissions PUT) actor of
        Some e \<Rightarrow> (Inl e, st)
      | None \<Rightarrow>
          (case get_object st actor pk of
             Inl e \<Rightarrow> (Inl e, st)
           | Inr instance \<Rightarrow>
               (case is_valid st actor PUT True d of
                  Inl e \<Rightarrow> (Inl e, st)
                | Inr v \<Rightarrow> perform_update st instance v)))"

text \<open>
  \<^verbatim>\<open>JobApplicationDetail.patch\<close>: the status is read before the update and after it,
  the "application accepted" task is queued when it became \<^verbatim>\<open>'accepted'\<close>, and the
  serializer is saved a second time. The address and the title are read through the
  foreign keys of the updated instance.
\<close>

definition notify_accepted :: "db \<Rightarrow> job_application \<Rightarrow> error + task" where
  "notify_accepted st a =
     (case find_user st (job_seeker a) of
        None \<Rightarrow> Inl (Uncaught DoesNotExist)
      | Some s \<Rightarrow>
          (case find_job st (job a) of
             None \<Rightarrow> Inl (Uncaught DoesNotExist)
           | Some j \<Rightarrow> Inr (Send_application_accepted_email (email s) (title j))))"

definition patch ::
  "db \<Rightarrow> user option \<Rightarrow> nat \<Rightarrow> application_data \<Rightarrow> (error + job_application) \<times> db" where
  "patch st actor pk d =
     (case check_permissions (detail_get_permissions PATCH) actor of
        Some e \<Rightarrow> (Inl e, st)
      | None \<Rightarrow>
          (case get_object st actor pk of
             Inl e \<Rightarrow> (Inl e, st)
           | Inr instance \<Rightarrow>
               (case is_valid st actor PATCH True d of
                  Inl e \<Rightarrow> (Inl e, st)
                | Inr v \<Rightarrow>
                    (let old_status = status instance in
                     case perform_update st instance v of
                       (Inl e, st1) \<Rightarrow> (Inl e, st1)
                     | (Inr inst1, st1) \<Rightarrow>
                         (let new_status = status inst1 in
                          if old_status \<noteq> ''accepted'' \<and> new_status = ''accepted'' then
                            (case notify_accepted st1 inst1 of
                               Inl e \<Rightarrow> (Inl e, st1)
                             | Inr t \<Rightarrow>
                                 perform_update (st1\<lparr>outbox := outbox st1 @ [t]\<rparr>) inst1 v)
                          else perform_update st1 inst1 v)))))"

section \<open>Job postings\<close>

subsection \<open>JobPostingListCreateView\<close>

text \<open>
  \<^verbatim>\<open>order_by('-created_at')\<close>: newest first. The order among postings created at
  the same instant is the database's choice; the model fixes one.
\<close>

definition order_by_created_at_desc :: "job_posting list \<Rightarrow> job_posting list" where
  "order_by_created_at_desc js = rev (sort_key created_at js)"

text \<open>
  The cache collaborator: \<^verbatim>\<open>cache.get\<close> answers \<^verbatim>\<open>None\<close> for a missing or
  expired entry, \<^verbatim>\<open>cache.set\<close> stores a value with its time to live in seconds,
  \<^verbatim>\<open>cache.delete\<close> drops the entry.
\<close>

definition cache_get :: "db \<Rightarrow> nat \<Rightarrow> job_posting list option" where
  "cache_get st now =
     (case active_jobs_cache st of
        None \<Rightarrow> None
      | Some (v, expires) \<Rightarrow> if expires \<le> now then None else Some v)"

definition cache_set :: "db \<Rightarrow> nat \<Rightarrow> job_posting list \<Rightarrow> nat \<Rightarrow> db" where
  "cache_set st now v ttl = st\<lparr>active_jobs_cache := Some (v, now + ttl)\<rparr>"

definition cache_delete :: "db \<Rightarrow> db" where
  "cache_delete st = st\<lparr>active_jobs_cache := None\<rparr>"

text \<open>
  \<^verbatim>\<open>JobPostingListCreateView.get_queryset\<close>, reached behind
  \<^verbatim>\<open>IsAuthenticated\<close>: an employer gets the postings they own; everybody else gets
  the cached list of active postings, which is rebuilt from the table on a miss.
\<close>

definition jobs_get_queryset :: "db \<Rightarrow> nat \<Rightarrow> user \<Rightarrow> job_posting list \<times> db" where
  "jobs_get_queryset st now u =
     (if role u = ''employer'' then
        (order_by_created_at_desc (filter (\<lambda>j. employer j = uid u) (jobs st)), st)
      else
        (case cache_get st now of
           None \<Rightarrow>
             (let cached_queryset = order_by_created_at_desc (filter is_active (jobs st))
              in (cached_queryset, cache_set st now cached_queryset (15 * 60)))
         | Some cached_queryset \<Rightarrow> (cached_queryset, st)))"

text \<open>
  Every value stored under the cache key is written by \<open>jobs_get_queryset\<close>, from a
  query that keeps active postings only.
\<close>

definition cache_holds_active :: "db \<Rightarrow> bool" where
  "cache_holds_active st =
     (case active_jobs_cache st of
        None \<Rightarrow> True
      | Some (v, expires) \<Rightarrow> list_all is_active v)"

subsection \<open>JobPostingDetailView\<close>

text \<open>
  \<^verbatim>\<open>JobPostingDetailView.get_permissions\<close> reads \<^verbatim>\<open>request.user.role\<close> for
  the reading methods; the anonymous user has no such attribute.
\<close>

definition job_detail_get_permissions ::
  "http_method \<Rightarrow> user option \<Rightarrow> error + permission list" where
  "job_detail_get_permissions m actor =
     (if m \<in> {PUT, PATCH, DELETE} then Inr [IsAuthenticated, IsEmployer, IsJobOwner]
      else (case actor of
              None \<Rightarrow> Inl (Uncaught AttributeError)
            | Some u \<Rightarrow>
                if role u = ''employer'' then Inr [IsAuthenticated, IsJobOwner]
                else Inr [IsAuthenticated]))"

text \<open>
  \<^verbatim>\<open>JobPostingDetailView.get_object\<close>: the posting is looked up among all postings
  (\<^verbatim>\<open>get_queryset\<close> of the view is not consulted), then the object-level checks of
  the permission classes run.
\<close>

definition job_get_object ::
  "db \<Rightarrow> http_method \<Rightarrow> user option \<Rightarrow> uuid \<Rightarrow> error + job_posting" where
  "job_get_object st m actor i =
     (case find_job st i of
        None \<Rightarrow> Inl NotFound
      | Some obj \<Rightarrow>
          (case job_detail_get_permissions m actor of
             Inl e \<Rightarrow> Inl e
           | Inr ps \<Rightarrow>
               (case check_object_permissions ps actor obj of
                  Some e \<Rightarrow> Inl e
                | None \<Rightarrow> Inr obj)))"

text \<open>
  \<^verbatim>\<open>JobPostingDetailView.get\<close>: the view-level permission checks of the dispatcher,
  then \<^verbatim>\<open>retrieve\<close>, which returns the object.
\<close>

definition retrieve :: "db \<Rightarrow> user option \<Rightarrow> uuid \<Rightarrow> error + job_posting" where
  "retrieve st actor i =
     (case job_detail_get_permissions GET actor of
        Inl e \<Rightarrow> Inl e
      | Inr ps \<Rightarrow>
          (case check_permissions ps actor of
             Some e \<Rightarrow> Inl e
           | None \<Rightarrow> job_get_object st GET actor i))"

text \<open>
  The visibility rule as the specification words it: a posting may be viewed if it is
  active, or the actor is its owning employer, or the actor is an admin.
\<close>

definition canViewJob_spec :: "user \<Rightarrow> job_posting \<Rightarrow> bool" where
  "canViewJob_spec u j =
     (is_active j \<or> (role u = ''employer'' \<and> uid u = employer j) \<or> role u = ''admin'')"

text \<open>
  The rule for changing an application's status as the specification words it: admins, and
  the employer of the application's posting.
\<close>

definition canMutateApplicationStatus_spec :: "db \<Rightarrow> user \<Rightarrow> job_application \<Rightarrow> bool" where
  "canMutateApplicationStatus_spec st u a =
     (role u = ''admin'' \<or>
      (role u = ''employer'' \<and>
       (case find_job st (job a) of None \<Rightarrow> False | Some j \<Rightarrow> employer j = uid u)))"

section \<open>Authentication\<close>

text \<open>
  Three functions of the framework are not part of the repository, and the operations below
  take them as a parameter: \<^verbatim>\<open>normalize_email\<close> and the hash behind
  \<^verbatim>\<open>set_password\<close>, which \<^verbatim>\<open>CustomUserManager.create_user\<close> calls, and the
  syntax check of an e-mail address (\<^verbatim>\<open>EmailValidator\<close>), which the serializer's
  \<^verbatim>\<open>EmailField\<close> runs. The values that \<^verbatim>\<open>uuid.uuid4\<close> draws for the key of
  the new user and for the verification token are arguments as well.
\<close>

record django =
  normalize_email :: "string \<Rightarrow> string"
  make_password :: "string \<Rightarrow> string"
  email_validator :: "string \<Rightarrow> bool"

text \<open>
  A character field of the REST framework, on a string of the request body. The value is
  trimmed (\<^verbatim>\<open>trim_whitespace\<close>, Python's \<^verbatim>\<open>str.strip\<close>); a value that is
  blank after trimming is an error unless the field allows blank, and is the empty string
  then; otherwise the trimmed value must respect the maximal length of the field, if it has
  one, and must not contain the null character. A string is a list of 8-bit characters here,
  so the whitespace characters are those of Python below code point 256.
\<close>

definition py_isspace :: "char \<Rightarrow> bool" where
  "py_isspace c =
     (c \<in> set [CHR 0x09, CHR 0x0A, CHR 0x0B, CHR 0x0C, CHR 0x0D, CHR 0x1C, CHR 0x1D,
                CHR 0x1E, CHR 0x1F, CHR 0x20, CHR 0x85, CHR 0xA0])"

definition strip :: "string \<Rightarrow> string" where
  "strip s = rev (dropWhile py_isspace (rev (dropWhile py_isspace s)))"

definition char_field :: "bool \<Rightarrow> nat option \<Rightarrow> string \<Rightarrow> error + string" where
  "char_field allow_blank max_length data =
     (if strip data = [] then (if allow_blank then Inr [] else Inl ValidationError)
      else if (case max_length of None \<Rightarrow> False | Some n \<Rightarrow> n < length (strip data))
      then Inl ValidationError
      else if CHR 0x00 \<in> set (strip data) then Inl ValidationError
      else Inr (strip data))"

definition optional_char_field :: "nat option \<Rightarrow> string option \<Rightarrow> error + string option" where
  "optional_char_field max_length data =
     (case data of
        None \<Rightarrow> Inr None
      | Some x \<Rightarrow>
          (case char_field True max_length x of
             Inl err \<Rightarrow> Inl err
           | Inr y \<Rightarrow> Inr (Some y)))"

text \<open>
  The body of a registration request and the serializer's validated dictionary; a field is
  \<open>None\<close> when the key is absent.
\<close>

record register_data =
  r_email :: "string option"
  r_password :: "string option"
  r_first_name :: "string option"
  r_last_name :: "string option"
  r_phone_number :: "string option"
  r_role :: "string option"

text \<open>
  \<^verbatim>\<open>RegisterSerializer\<close>, field by field. \<^verbatim>\<open>email\<close> is the model's
  \<^verbatim>\<open>EmailField(unique=True)\<close>: required, not blank, at most 254 characters, a valid
  address, and not the address of a user. \<^verbatim>\<open>password\<close> is the declared
  \<^verbatim>\<open>CharField(required=True)\<close>: required and not blank. The names are the model's
  optional columns of at most 150 characters, the phone number is the declared optional
  \<^verbatim>\<open>CharField\<close> without a limit; all three may be blank. \<^verbatim>\<open>role\<close> is a
  choice field with default \<^verbatim>\<open>'job_seeker'\<close>, so a body without the key validates
  to the default; a choice field does not trim. The validated dictionary holds the trimmed
  values.
\<close>

definition validate_role :: "string option \<Rightarrow> error + string" where
  "validate_role r =
     (case r of
        None \<Rightarrow> Inr ''job_seeker''
      | Some x \<Rightarrow> if x \<in> set ROLE_CHOICES then Inr x else Inl ValidationError)"

definition validate_email :: "django \<Rightarrow> db \<Rightarrow> string option \<Rightarrow> error + string" where
  "validate_email fw st data =
     (case data of
        None \<Rightarrow> Inl ValidationError
      | Some e \<Rightarrow>
          (case char_field False (Some 254) e of
             Inl err \<Rightarrow> Inl err
           | Inr x \<Rightarrow>
               if email_validator fw x \<and> \<not> (\<exists>u \<in> set (users st). email u = x) then Inr x
               else Inl ValidationError))"

definition validate_password :: "string option \<Rightarrow> error + string" where
  "validate_password data =
     (case data of
        None \<Rightarrow> Inl ValidationError
      | Some p \<Rightarrow> char_field False None p)"

definition register_is_valid ::
  "django \<Rightarrow> db \<Rightarrow> register_data \<Rightarrow> error + register_data" where
  "register_is_valid fw st d =
     (case validate_email fw st (r_email d) of
        Inl err \<Rightarrow> Inl err
      | Inr e \<Rightarrow>
          (case validate_password (r_password d) of
             Inl err \<Rightarrow> Inl err
           | Inr p \<Rightarrow>
               (case optional_char_field (Some 150) (r_first_name d) of
                  Inl err \<Rightarrow> Inl err
                | Inr fn \<Rightarrow>
                    (case optional_char_field (Some 150) (r_last_name d) of
                       Inl err \<Rightarrow> Inl err
                     | Inr ln \<Rightarrow>
                         (case optional_char_field None (r_phone_number d) of
                            Inl err \<Rightarrow> Inl err
                          | Inr ph \<Rightarrow>
                              (case validate_role (r_role d) of
                                 Inl err \<Rightarrow> Inl err
                               | Inr x \<Rightarrow>
                                   Inr \<lparr>r_email = Some e, r_password = Some p,
                                        r_first_name = fn, r_last_name = ln,
                                        r_phone_number = ph, r_role = Some x\<rparr>))))))"

text \<open>
  \<^verbatim>\<open>CustomUserManager.create_user\<close>. A keyword that is not passed takes the column
  default: the empty string for the names, \<^verbatim>\<open>NULL\<close> for the phone number,
  \<^verbatim>\<open>'user'\<close> for the role. The key and the address are unique columns.
\<close>

definition create_user ::
  "django \<Rightarrow> db \<Rightarrow> uuid \<Rightarrow> string \<Rightarrow> string \<Rightarrow> string option \<Rightarrow> string option \<Rightarrow>
   string option \<Rightarrow> string option \<Rightarrow> (error + user) \<times> db" where
  "create_user fw st new_id e p fn ln ph r =
     (if e = [] then (Inl (Uncaught ValueError), st)
      else
        (let u = \<lparr>uid = new_id, email = normalize_email fw e, password = make_password fw p,
                  first_name = (case fn of None \<Rightarrow> [] | Some x \<Rightarrow> x),
                  last_name = (case ln of None \<Rightarrow> [] | Some x \<Rightarrow> x),
                  phone_number = ph,
                  role = (case r of None \<Rightarrow> ''user'' | Some x \<Rightarrow> x),
                  is_email_verified = False\<rparr>
         in if \<exists>x \<in> set (users st). uid x = uid u \<or> email x = email u
            then (Inl (Uncaught IntegrityError), st)
            else (Inr u, st\<lparr>users := users st @ [u]\<rparr>)))"

definition create_job_seeker_profile :: "db \<Rightarrow> user \<Rightarrow> error option \<times> db" where
  "create_job_seeker_profile st u =
     (if \<exists>x \<in> set (job_seeker_profiles st). jsp_user x = uid u
      then (Some (Uncaught IntegrityError), st)
      else (None, st\<lparr>job_seeker_profiles := job_seeker_profiles st @
              [\<lparr>jsp_user = uid u, resume = None, skills = [], experience = 0\<rparr>]\<rparr>))"

definition create_employer_profile :: "db \<Rightarrow> user \<Rightarrow> string option \<Rightarrow> error option \<times> db" where
  "create_employer_profile st u cn =
     (if \<exists>x \<in> set (employer_profiles st). ep_user x = uid u
      then (Some (Uncaught IntegrityError), st)
      else (None, st\<lparr>employer_profiles := employer_profiles st @
              [\<lparr>ep_user = uid u, company_name = cn, website = None, bio = None\<rparr>]\<rparr>))"

definition create_verification_token ::
  "db \<Rightarrow> user \<Rightarrow> uuid \<Rightarrow> (error + verification_token) \<times> db" where
  "create_verification_token st u t =
     (if \<exists>x \<in> set (verification_tokens st). vt_user x = uid u \<or> token x = t
      then (Inl (Uncaught IntegrityError), st)
      else (let v = \<lparr>vt_id = next_token_id st, vt_user = uid u, token = t\<rparr>
            in (Inr v, st\<lparr>verification_tokens := verification_tokens st @ [v],
                           next_token_id := Suc (next_token_id st)\<rparr>)))"

text \<open>
  \<^verbatim>\<open>RegisterSerializer\<close> defines \<^verbatim>\<open>create\<close> twice. A class body binds the name
  to the later definition, so the first one is never called; it is kept here under the name
  \<open>create_shadowed\<close>.
\<close>

definition create_shadowed ::
  "django \<Rightarrow> db \<Rightarrow> uuid \<Rightarrow> register_data \<Rightarrow> (error + user) \<times> db" where
  "create_shadowed fw st new_id v =
     (let r = (case r_role v of None \<Rightarrow> ''job_seeker'' | Some x \<Rightarrow> x) in
      case r_email v of
        None \<Rightarrow> (Inl (Uncaught KeyError), st)
      | Some e \<Rightarrow>
          (case r_password v of
             None \<Rightarrow> (Inl (Uncaught KeyError), st)
           | Some p \<Rightarrow>
               (case create_user fw st new_id e p
                       (Some (case r_first_name v of None \<Rightarrow> [] | Some x \<Rightarrow> x))
                       (Some (case r_last_name v of None \<Rightarrow> [] | Some x \<Rightarrow> x))
                       (Some (case r_phone_number v of None \<Rightarrow> [] | Some x \<Rightarrow> x))
                       (Some r) of
                  (Inl err, st1) \<Rightarrow> (Inl err, st1)
                | (Inr u, st1) \<Rightarrow>
                    if r = ''job_seeker'' then
                      (case create_job_seeker_profile st1 u of
                         (Some err, st2) \<Rightarrow> (Inl err, st2)
                       | (None, st2) \<Rightarrow> (Inr u, st2))
                    else if r = ''employer'' then
                      (case create_employer_profile st1 u
                              (Some (first_name u @ [CHR 0x27] @ ''s Company'')) of
                         (Some err, st2) \<Rightarrow> (Inl err, st2)
                       | (None, st2) \<Rightarrow> (Inr u, st2))
                    else (Inr u, st1))))"

text \<open>
  The \<^verbatim>\<open>create\<close> in effect: the user, the profile for the role (with the columns'
  defaults), the verification token and the verification mail.
\<close>

definition create ::
  "django \<Rightarrow> db \<Rightarrow> uuid \<Rightarrow> uuid \<Rightarrow> register_data \<Rightarrow> (error + user) \<times> db" where
  "create fw st new_id new_token v =
     (case r_email v of
        None \<Rightarrow> (Inl (Uncaught TypeError), st)
      | Some e \<Rightarrow>
          (case r_password v of
             None \<Rightarrow> (Inl (Uncaught TypeError), st)
           | Some p \<Rightarrow>
               (case create_user fw st new_id e p (r_first_name v) (r_last_name v)
                       (r_phone_number v) (r_role v) of
                  (Inl err, st1) \<Rightarrow> (Inl err, st1)
                | (Inr u, st1) \<Rightarrow>
                    (case (if role u = ''job_seeker'' then create_job_seeker_profile st1 u
                           else if role u = ''employer'' then create_employer_profile st1 u None
                           else (None, st1)) of
                       (Some err, st2) \<Rightarrow> (Inl err, st2)
                     | (None, st2) \<Rightarrow>
                         (case create_verification_token st2 u new_token of
                            (Inl err, st3) \<Rightarrow> (Inl err, st3)
                          | (Inr t, st3) \<Rightarrow>
                              (Inr u, st3\<lparr>outbox := outbox st3 @
                                 [Send_verification_email (uid u) (token t)]\<rparr>))))))"

text \<open>
  \<^verbatim>\<open>RegisterView.create\<close> up to the response body: validation, then
  \<^verbatim>\<open>serializer.save()\<close>.
\<close>

definition register ::
  "django \<Rightarrow> db \<Rightarrow> uuid \<Rightarrow> uuid \<Rightarrow> register_data \<Rightarrow> (error + user) \<times> db" where
  "register fw st new_id new_token d =
     (case register_is_valid fw st d of
        Inl err \<Rightarrow> (Inl err, st)
      | Inr v \<Rightarrow> create fw st new_id new_token v)"

subsection \<open>VerifyEmailView\<close>

datatype body = Message string | Error string

type_synonym response = "nat \<times> body"

text \<open>
  \<^verbatim>\<open>VerifyEmailView.get\<close>. The query parameter is \<open>None\<close> when the request has
  none. The handler catches \<^verbatim>\<open>VerificationToken.DoesNotExist\<close> only.
\<close>

definition verify_email :: "db \<Rightarrow> uuid option \<Rightarrow> (error + response) \<times> db" where
  "verify_email st t =
     (case (case t of None \<Rightarrow> None
                    | Some x \<Rightarrow> find (\<lambda>v. token v = x) (verification_tokens st)) of
        None \<Rightarrow> (Inr (400, Error ''Invalid or expired token''), st)
      | Some verification_token \<Rightarrow>
          (case find_user st (vt_user verification_token) of
             None \<Rightarrow> (Inl (Uncaught DoesNotExist), st)
           | Some u \<Rightarrow>
               if \<not> is_email_verified u then
                 (Inr (200, Message ''Email verified successfully''),
                  st\<lparr>users := map (\<lambda>x. if uid x = uid u then u\<lparr>is_email_verified := True\<rparr> else x)
                                 (users st),
                     verification_tokens :=
                       filter (\<lambda>v. vt_id v \<noteq> vt_id verification_token)
                         (verification_tokens st)\<rparr>)
               else (Inr (200, Message ''Email already verified''), st)))"

section \<open>Example data\<close>

definition ada :: user where
  "ada = \<lparr>uid = 1, email = ''ada@example.com'', password = ''x'', first_name = ''Ada'',
          last_name = ''L'', phone_number = None, role = ''employer'',
          is_email_verified = True\<rparr>"

definition bob :: user where
  "bob = \<lparr>uid = 2, email = ''bob@example.com'', password = ''x'', first_name = ''Bob'',
          last_name = ''B'', phone_number = None, role = ''employer'',
          is_email_verified = True\<rparr>"

definition sam :: user where
  "sam = \<lparr>uid = 3, email = ''sam@example.com'', password = ''x'', first_name = ''Sam'',
          last_name = ''S'', phone_number = None, role = ''job_seeker'',
          is_email_verified = False\<rparr>"

definition root :: user where
  "root = \<lparr>uid = 4, email = ''root@example.com'', password = ''x'', first_name = ''Root'',
           last_name = ''R'', phone_number = None, role = ''admin'',
           is_email_verified = True\<rparr>"

definition open_job :: job_posting where
  "open_job = \<lparr>job_id = 10, title = ''Engineer'', description = ''d'', category = ''tech'',
               job_type = ''full_time'', salary = 100, location = None, employer = 1,
               created_at = 100, updated_at = 100, is_active = True\<rparr>"

definition closed_job :: job_posting where
  "closed_job = \<lparr>job_id = 11, title = ''Analyst'', description = ''d'', category = ''finance'',
                 job_type = ''contract'', salary = 90, location = None, employer = 1,
                 created_at = 200, updated_at = 300, is_active = False\<rparr>"

definition sams_application :: job_application where
  "sams_application = \<lparr>app_id = 1, job = 10, job_seeker = 3, status = ''submitted'',
                       applied_at = 400\<rparr>"

definition db0 :: db where
  "db0 = \<lparr>users = [ada, bob, sam, root], job_seeker_profiles = [], employer_profiles = [],
          verification_tokens = [\<lparr>vt_id = 1, vt_user = 3, token = 77\<rparr>], next_token_id = 2,
          jobs = [open_job, closed_job], applications = [], next_app_id = 1,
          active_jobs_cache = None, outbox = []\<rparr>"

definition db1 :: db where
  "db1 = db0\<lparr>applications := [sams_application], next_app_id := 2\<rparr>"

definition example_django :: django where
  "example_django = \<lparr>normalize_email = (\<lambda>e. e), make_password = (\<lambda>p. p),
                     email_validator = (\<lambda>e. CHR ''@'' \<in> set e)\<rparr>"

definition empty_db :: db where
  "empty_db = \<lparr>users = [], job_seeker_profiles = [], employer_profiles = [],
               verification_tokens = [], next_token_id = 1, jobs = [], applications = [],
               next_app_id = 1, active_jobs_cache = None, outbox = []\<rparr>"

section \<open>Properties\<close>

lemmas example_defs = ada_def bob_def sam_def root_def open_job_def closed_job_def
  sams_application_def db0_def db1_def empty_db_def

lemmas application_defs = post_def put_def patch_def get_object_def is_valid_def validate_def
  to_internal_value_def perform_create_def perform_update_def insert_application_def
  update_application_def notify_accepted_def detail_get_permissions_def
  list_create_get_permissions_def py_or_def truthy_def permission_denied_def
  find_job_def find_user_def find_application_def STATUS_CHOICES_def

lemmas register_defs = register_def register_is_valid_def validate_email_def
  validate_password_def char_field_def optional_char_field_def strip_def py_isspace_def
  validate_role_def ROLE_CHOICES_def
  create_def create_shadowed_def create_user_def create_employer_profile_def
  create_job_seeker_profile_def create_verification_token_def

subsection \<open>Who may change the status of an application\<close>

text \<open>
  The permission list of \<^verbatim>\<open>PUT\<close> is \<^verbatim>\<open>[IsAuthenticated(), IsEmployer() or
  IsAdminUser()]\<close>, and the disjunction of two instances is the first of them: an admin
  never passes it. \<^verbatim>\<open>PATCH\<close> asks for authentication only, and the role dispatch
  of \<^verbatim>\<open>get_object\<close> lets a job seeker through to their own application.
\<close>

lemma put_permissions: "detail_get_permissions PUT = [IsAuthenticated, IsEmployer]"
  by (simp add: detail_get_permissions_def py_or_def truthy_def)

lemma put_refuses_every_admin:
  "role u = ''admin'' \<Longrightarrow> put st (Some u) pk d = (Inl Forbidden, st)"
  by (simp add: put_def put_permissions permission_denied_def)

lemma put_refuses_all_but_employers:
  "role u \<noteq> ''employer'' \<Longrightarrow> put st (Some u) pk d = (Inl Forbidden, st)"
  by (simp add: put_def put_permissions permission_denied_def)

text \<open>
  \<^bold>\<open>C2\<close> (the code departs from the claim). The claim: changing the status of an
  application is permitted exactly for admins and for the employer of the application's
  posting. On the example store, the admin \<open>root\<close> satisfies the rule and is refused with
  403 on \<^verbatim>\<open>PUT\<close>; the job seeker \<open>sam\<close> does not satisfy it and sets the status of
  his own application to \<^verbatim>\<open>'accepted'\<close> with \<^verbatim>\<open>PATCH\<close>.
\<close>

theorem update_status_permission_divergence:
  "canMutateApplicationStatus_spec db1 root sams_application \<and>
   put db1 (Some root) 1 \<lparr>data_job_id = None, data_status = Some ''reviewed''\<rparr>
     = (Inl Forbidden, db1) \<and>
   \<not> canMutateApplicationStatus_spec db1 sam sams_application \<and>
   fst (patch db1 (Some sam) 1 \<lparr>data_job_id = None, data_status = Some ''accepted''\<rparr>)
     = Inr (sams_application\<lparr>status := ''accepted''\<rparr>)"
  by (simp add: application_defs example_defs canMutateApplicationStatus_spec_def)

subsection \<open>The "application accepted" notification\<close>

lemma update_application_outbox:
  "outbox (snd (update_application st a)) = outbox st"
  by (simp add: update_application_def)

lemma perform_update_outbox:
  "outbox (snd (perform_update st i v)) = outbox st"
  by (simp add: perform_update_def update_application_outbox)

lemma perform_update_twice_status:
  "perform_update st i v = (Inr a, st') \<Longrightarrow> perform_update st2 a v = (Inr b, st3) \<Longrightarrow>
   status b = status a"
  by (auto simp: perform_update_def update_application_def split: if_splits option.splits)

text \<open>\<^verbatim>\<open>PUT\<close> queues nothing, whatever the request.\<close>

lemma put_never_notifies: "outbox (snd (put st actor pk d)) = outbox st"
  by (simp add: put_def perform_update_outbox split: option.splits sum.splits)

text \<open>
  \<^verbatim>\<open>PATCH\<close> is edge-triggered: a successful request queues one "accepted" task when
  the status was not \<^verbatim>\<open>'accepted'\<close> before and is afterwards, and nothing otherwise.
\<close>

lemma patch_edge_triggered:
  assumes "get_object st actor pk = Inr inst" and "patch st actor pk d = (Inr a, st')"
  shows "if status inst \<noteq> ''accepted'' \<and> status a = ''accepted''
         then \<exists>e t. outbox st' = outbox st @ [Send_application_accepted_email e t]
         else outbox st' = outbox st"
proof -
  from assms obtain v where v: "is_valid st actor PATCH True d = Inr v"
    by (auto simp: patch_def split: option.splits sum.splits)
  from assms v obtain i1 s1 where u1: "perform_update st inst v = (Inr i1, s1)"
    by (cases "perform_update st inst v")
       (auto simp: patch_def Let_def split: option.splits sum.splits)
  have o1: "outbox s1 = outbox st"
    using perform_update_outbox[of st inst v] u1 by simp
  show ?thesis
  proof (cases "status inst \<noteq> ''accepted'' \<and> status i1 = ''accepted''")
    case True
    with assms v u1 obtain t where t: "notify_accepted s1 i1 = Inr t"
      and p: "perform_update (s1\<lparr>outbox := outbox s1 @ [t]\<rparr>) i1 v = (Inr a, st')"
      by (auto simp: patch_def Let_def split: option.splits sum.splits)
    from t obtain e ti where tt: "t = Send_application_accepted_email e ti"
      by (auto simp: notify_accepted_def split: option.splits)
    have "status a = status i1" using perform_update_twice_status[OF u1 p] .
    moreover have "outbox st' = outbox s1 @ [t]"
      using perform_update_outbox[of "s1\<lparr>outbox := outbox s1 @ [t]\<rparr>" i1 v] p by simp
    ultimately show ?thesis using True o1 tt by auto
  next
    case False
    with assms v u1 have p: "perform_update s1 i1 v = (Inr a, st')"
      by (auto simp: patch_def Let_def split: option.splits sum.splits)
    have "status a = status i1" using perform_update_twice_status[OF u1 p] .
    moreover have "outbox st' = outbox s1"
      using perform_update_outbox[of s1 i1 v] p by simp
    ultimately show ?thesis using False o1 by auto
  qed
qed

text \<open>
  \<^bold>\<open>C4\<close> (the code departs from the claim). The claim: every permitted status update
  that takes an application from a status other than \<^verbatim>\<open>'accepted'\<close> to
  \<^verbatim>\<open>'accepted'\<close> dispatches exactly one "application accepted" notification. On the
  example store the owning employer \<open>ada\<close> accepts the submitted application 1 with
  \<^verbatim>\<open>PUT\<close>: the row is updated and the queue stays empty. The same request sent with
  \<^verbatim>\<open>PATCH\<close> queues the mail.
\<close>

theorem put_accept_sends_nothing:
  "put db1 (Some ada) 1 \<lparr>data_job_id = None, data_status = Some ''accepted''\<rparr> =
     (Inr (sams_application\<lparr>status := ''accepted''\<rparr>),
      db1\<lparr>applications := [sams_application\<lparr>status := ''accepted''\<rparr>]\<rparr>) \<and>
   outbox (snd (put db1 (Some ada) 1 \<lparr>data_job_id = None, data_status = Some ''accepted''\<rparr>))
     = [] \<and>
   outbox (snd (patch db1 (Some ada) 1 \<lparr>data_job_id = None, data_status = Some ''accepted''\<rparr>))
     = [Send_application_accepted_email ''sam@example.com'' ''Engineer'']"
  by (simp add: application_defs example_defs)

subsection \<open>Registration\<close>

text \<open>
  What the \<^verbatim>\<open>create\<close> in effect does about profiles, for every role: one job seeker
  profile with empty skills and no experience, or one employer profile with no company name,
  or nothing.
\<close>

lemma create_profiles:
  assumes "create fw st nid ntok v = (Inr u, st')"
  shows "(role u = ''job_seeker'' \<longrightarrow>
            job_seeker_profiles st' = job_seeker_profiles st @
              [\<lparr>jsp_user = uid u, resume = None, skills = [], experience = 0\<rparr>] \<and>
            employer_profiles st' = employer_profiles st) \<and>
         (role u = ''employer'' \<longrightarrow>
            employer_profiles st' = employer_profiles st @
              [\<lparr>ep_user = uid u, company_name = None, website = None, bio = None\<rparr>] \<and>
            job_seeker_profiles st' = job_seeker_profiles st) \<and>
         (role u \<noteq> ''job_seeker'' \<and> role u \<noteq> ''employer'' \<longrightarrow>
            employer_profiles st' = employer_profiles st \<and>
            job_seeker_profiles st' = job_seeker_profiles st)"
  using assms
  unfolding create_def create_user_def create_job_seeker_profile_def
    create_employer_profile_def create_verification_token_def Let_def
  by (auto split: option.splits if_splits prod.splits sum.splits)

text \<open>
  \<^bold>\<open>C8\<close> (the code departs from the claim). The claim: a registered employer gets an
  \<^verbatim>\<open>EmployerProfile\<close> whose company name is derived from the user's name. Registering
  the employer Ada in the empty store (her address passing the framework's syntax check)
  creates exactly one employer profile and no job seeker profile, and the company name of
  that profile is \<^verbatim>\<open>NULL\<close>; the \<^verbatim>\<open>create\<close> that the class body overwrites
  would have stored \<^verbatim>\<open>"Ada's Company"\<close>.
\<close>

theorem register_employer_company_name_null:
  assumes "email_validator fw ''ada@example.com''"
  shows
  "employer_profiles (snd (register fw empty_db 1 100
      \<lparr>r_email = Some ''ada@example.com'', r_password = Some ''pw'',
       r_first_name = Some ''Ada'', r_last_name = None, r_phone_number = None,
       r_role = Some ''employer''\<rparr>))
     = [\<lparr>ep_user = 1, company_name = None, website = None, bio = None\<rparr>] \<and>
   job_seeker_profiles (snd (register fw empty_db 1 100
      \<lparr>r_email = Some ''ada@example.com'', r_password = Some ''pw'',
       r_first_name = Some ''Ada'', r_last_name = None, r_phone_number = None,
       r_role = Some ''employer''\<rparr>)) = [] \<and>
   employer_profiles (snd (create_shadowed fw empty_db 1
      \<lparr>r_email = Some ''ada@example.com'', r_password = Some ''pw'',
       r_first_name = Some ''Ada'', r_last_name = None, r_phone_number = None,
       r_role = Some ''employer''\<rparr>))
     = [\<lparr>ep_user = 1, company_name = Some (''Ada'' @ [CHR 0x27] @ ''s Company''),
         website = None, bio = None\<rparr>]"
  using assms by (simp add: register_defs create_def create_shadowed_def create_user_def
      create_employer_profile_def create_job_seeker_profile_def
      create_verification_token_def empty_db_def Let_def)

text \<open>
  The same with a framework whose syntax check asks for an \<^verbatim>\<open>@\<close> only.
\<close>

theorem register_employer_company_name_null_witness:
  "email_validator example_django ''ada@example.com'' \<and>
   employer_profiles (snd (register example_django empty_db 1 100
      \<lparr>r_email = Some ''ada@example.com'', r_password = Some ''pw'',
       r_first_name = Some ''Ada'', r_last_name = None, r_phone_number = None,
       r_role = Some ''employer''\<rparr>))
     = [\<lparr>ep_user = 1, company_name = None, website = None, bio = None\<rparr>] \<and>
   job_seeker_profiles (snd (register example_django empty_db 1 100
      \<lparr>r_email = Some ''ada@example.com'', r_password = Some ''pw'',
       r_first_name = Some ''Ada'', r_last_name = None, r_phone_number = None,
       r_role = Some ''employer''\<rparr>)) = []"
proof -
  have h: "email_validator example_django ''ada@example.com''"
    by (simp add: example_django_def)
  from register_employer_company_name_null[OF h] h show ?thesis by blast
qed

subsection \<open>Submitting an application\<close>

text \<open>
  The whole of \<^verbatim>\<open>JobApplicationListCreate.post\<close> as one case distinction: who is
  refused, which bodies are invalid, when the unique index refuses the row, and what a
  successful request writes.
\<close>

lemma find_Some_holds: "find P xs = Some x \<Longrightarrow> P x \<and> x \<in> set xs"
  by (induction xs) (auto split: if_splits)

lemma find_job_Some: "find_job st i = Some j \<Longrightarrow> job_id j = i"
  unfolding find_job_def by (drule find_Some_holds) simp

lemma post_outcome:
  "post st now actor d =
     (case actor of
        None \<Rightarrow> (Inl NotAuthenticated, st)
      | Some u \<Rightarrow>
          if role u \<noteq> ''job_seeker'' then (Inl Forbidden, st)
          else (case data_job_id d of
                  None \<Rightarrow> (Inl ValidationError, st)
                | Some i \<Rightarrow>
                    (case find_job st i of
                       None \<Rightarrow> (Inl ValidationError, st)
                     | Some j \<Rightarrow>
                         if (case data_status d of None \<Rightarrow> False
                             | Some s \<Rightarrow> s \<notin> set STATUS_CHOICES) \<or> employer j = uid u
                         then (Inl ValidationError, st)
                         else if \<exists>b \<in> set (applications st). job b = i \<and> job_seeker b = uid u
                         then (Inl (Uncaught IntegrityError), st)
                         else
                           (Inr \<lparr>app_id = next_app_id st, job = i, job_seeker = uid u,
                                 status = (case data_status d of None \<Rightarrow> ''submitted''
                                           | Some s \<Rightarrow> s),
                                 applied_at = now\<rparr>,
                            st\<lparr>applications := applications st @
                                  [\<lparr>app_id = next_app_id st, job = i, job_seeker = uid u,
                                    status = (case data_status d of None \<Rightarrow> ''submitted''
                                              | Some s \<Rightarrow> s),
                                    applied_at = now\<rparr>],
                                next_app_id := Suc (next_app_id st),
                                outbox := outbox st @
                                  [Send_application_submitted_email (email u) (title j)]\<rparr>))))"
  unfolding post_def list_create_get_permissions_def is_valid_def to_internal_value_def
    validate_def perform_create_def insert_application_def
  by (auto simp: permission_denied_def split: option.splits dest: find_job_Some)

lemma post_never_conflict: "fst (post st now actor d) \<noteq> Inl Conflict"
  by (simp add: post_outcome split: option.splits)

lemma post_keeps_unique_together:
  "unique_together (applications st) \<Longrightarrow>
   unique_together (applications (snd (post st now actor d)))"
  by (auto simp: post_outcome unique_together_def split: option.splits)

text \<open>
  The unique index is checked on every write, so the creation and both updates keep the
  table well formed.
\<close>

lemma post_keeps_applications_ok: "applications_ok st \<Longrightarrow> applications_ok (snd (post st now actor d))"
  by (auto simp: post_outcome applications_ok_def unique_together_def list_all_iff
      split: option.splits)

lemma map_replace_key:
  "map app_id (map (\<lambda>b. if app_id b = app_id a then a else b) xs) = map app_id xs"
  by (induction xs) auto

lemma replace_keeps_pairs:
  assumes "distinct (map (\<lambda>a. (job a, job_seeker a)) xs)"
    and "\<forall>b \<in> set xs. app_id b \<noteq> app_id a \<longrightarrow> \<not> (job b = job a \<and> job_seeker b = job_seeker a)"
    and "distinct (map app_id xs)"
  shows "distinct (map (\<lambda>a. (job a, job_seeker a))
           (map (\<lambda>b. if app_id b = app_id a then a else b) xs))"
  using assms
proof (induction xs)
  case Nil
  then show ?case by simp
next
  case (Cons x xs)
  then show ?case
    by (auto simp: image_iff split: if_splits)
qed


lemma update_application_keeps_applications_ok:
  assumes "applications_ok st"
  shows "applications_ok (snd (update_application st a))"
proof (cases "\<exists>b \<in> set (applications st).
           app_id b \<noteq> app_id a \<and> job b = job a \<and> job_seeker b = job_seeker a")
  case True
  with assms show ?thesis by (simp add: update_application_def)
next
  case False
  let ?ys = "map (\<lambda>b. if app_id b = app_id a then a else b) (applications st)"
  from assms False have 1: "distinct (map (\<lambda>a. (job a, job_seeker a)) ?ys)"
    by (intro replace_keeps_pairs) (auto simp: applications_ok_def unique_together_def)
  have 2: "map app_id ?ys = map app_id (applications st)" by (rule map_replace_key)
  from assms have 3: "list_all (\<lambda>x. app_id x < next_app_id st) ?ys"
    by (auto simp: applications_ok_def list_all_iff)
  from assms have 4: "distinct (map app_id (applications st))" by (simp add: applications_ok_def)
  have "snd (update_application st a) = st\<lparr>applications := ?ys\<rparr>"
    unfolding update_application_def by (subst if_not_P[OF False]) simp
  with 1 2 3 4 show ?thesis
    by (simp add: applications_ok_def unique_together_def del: map_map)
qed

lemma perform_update_keeps_applications_ok:
  "applications_ok st \<Longrightarrow> applications_ok (snd (perform_update st i v))"
  by (simp add: perform_update_def update_application_keeps_applications_ok)

lemma applications_ok_outbox: "applications_ok (st\<lparr>outbox := x\<rparr>) = applications_ok st"
  by (simp add: applications_ok_def)

lemma put_keeps_applications_ok: "applications_ok st \<Longrightarrow> applications_ok (snd (put st actor pk d))"
  by (simp add: put_def perform_update_keeps_applications_ok split: option.splits sum.splits)

lemma patch_keeps_applications_ok:
  assumes "applications_ok st"
  shows "applications_ok (snd (patch st actor pk d))"
proof -
  have step: "applications_ok (snd (perform_update s i v))" if "applications_ok s" for s i v
    using that by (rule perform_update_keeps_applications_ok)
  have two: "applications_ok (snd (case perform_update st i v of
        (Inl e, st1) \<Rightarrow> (Inl e, st1)
      | (Inr inst1, st1) \<Rightarrow>
          (if c inst1 then
             (case notify_accepted st1 inst1 of
                Inl e \<Rightarrow> (Inl e, st1)
              | Inr t \<Rightarrow> perform_update (st1\<lparr>outbox := outbox st1 @ [t]\<rparr>) inst1 v)
           else perform_update st1 inst1 v)))" for i v c
  proof (cases "perform_update st i v")
    case (Pair r st1)
    with step[OF assms, of i v] have ok: "applications_ok st1" by simp
    show ?thesis
      using Pair ok step[of st1] step[of "st1\<lparr>outbox := outbox st1 @ [t]\<rparr>" for t]
      by (auto simp: applications_ok_outbox split: sum.splits)
  qed
  show ?thesis
  proof (cases "check_permissions (detail_get_permissions PATCH) actor")
    case (Some e)
    with assms show ?thesis by (simp add: patch_def)
  next
    case None
    show ?thesis
    proof (cases "get_object st actor pk")
      case (Inl e)
      with None assms show ?thesis by (simp add: patch_def)
    next
      case (Inr inst)
      show ?thesis
      proof (cases "is_valid st actor PATCH True d")
        case (Inl e)
        with None Inr assms show ?thesis by (simp add: patch_def)
      next
        case v: (Inr v)
        from two[where i=inst and v=v
            and c="\<lambda>i1. status inst \<noteq> ''accepted'' \<and> status i1 = ''accepted''"]
        show ?thesis unfolding patch_def Let_def using None Inr v by simp
      qed
    qed
  qed
qed

text \<open>
  \<^bold>\<open>C1\<close> (amended). The claim: at most one application exists per posting and job seeker,
  and a second submission for the same pair fails with \<open>Conflict\<close>, the violation of the
  unique constraint being translated. What holds: a submission keeps the pairs of the table
  distinct, and so does every update of an application; a submission for a pair that already has a row always fails, leaves the store as
  it was, and never fails with \<open>Conflict\<close>; when the request is valid otherwise, the
  failure is the \<^verbatim>\<open>IntegrityError\<close> of the unique index, which nothing catches.
\<close>

theorem duplicate_application_refused:
  "(unique_together (applications st) \<longrightarrow>
      unique_together (applications (snd (post st now actor d)))) \<and>
   (applications_ok st \<longrightarrow>
      applications_ok (snd (post st now actor d)) \<and>
      applications_ok (snd (put st actor pk d)) \<and>
      applications_ok (snd (patch st actor pk d))) \<and>
   ((\<exists>b \<in> set (applications st). job b = i \<and> job_seeker b = uid u) \<longrightarrow>
      (\<exists>e. post st now (Some u) \<lparr>data_job_id = Some i, data_status = s\<rparr> = (Inl e, st) \<and>
           e \<noteq> Conflict)) \<and>
   (role u = ''job_seeker'' \<and> find_job st i = Some j \<and> employer j \<noteq> uid u \<and>
    (case s of None \<Rightarrow> True | Some x \<Rightarrow> x \<in> set STATUS_CHOICES) \<and>
    (\<exists>b \<in> set (applications st). job b = i \<and> job_seeker b = uid u) \<longrightarrow>
      post st now (Some u) \<lparr>data_job_id = Some i, data_status = s\<rparr>
        = (Inl (Uncaught IntegrityError), st))"
proof -
  have a: "unique_together (applications (snd (post st now actor d)))"
    if "unique_together (applications st)"
    using that by (rule post_keeps_unique_together)
  have b: "applications_ok (snd (post st now actor d)) \<and>
      applications_ok (snd (put st actor pk d)) \<and>
      applications_ok (snd (patch st actor pk d))" if "applications_ok st"
    using that post_keeps_applications_ok put_keeps_applications_ok
      patch_keeps_applications_ok by blast
  have c: "\<exists>e. post st now (Some u) \<lparr>data_job_id = Some i, data_status = s\<rparr> = (Inl e, st) \<and>
           e \<noteq> Conflict"
    if "\<exists>b \<in> set (applications st). job b = i \<and> job_seeker b = uid u"
    using that by (auto simp: post_outcome split: option.splits)
  have d: "post st now (Some u) \<lparr>data_job_id = Some i, data_status = s\<rparr>
        = (Inl (Uncaught IntegrityError), st)"
    if "role u = ''job_seeker'' \<and> find_job st i = Some j \<and> employer j \<noteq> uid u \<and>
    (case s of None \<Rightarrow> True | Some x \<Rightarrow> x \<in> set STATUS_CHOICES) \<and>
    (\<exists>b \<in> set (applications st). job b = i \<and> job_seeker b = uid u)"
    using that by (auto simp: post_outcome split: option.splits)
  from a b c d show ?thesis by blast
qed

theorem duplicate_application_refused_witness:
  "applications_ok db0 \<and> unique_together (applications db0) \<and>
   applications (snd (post db0 400 (Some sam) \<lparr>data_job_id = Some 10, data_status = None\<rparr>))
     = [sams_application] \<and>
   unique_together (applications (snd (post db0 400 (Some sam)
      \<lparr>data_job_id = Some 10, data_status = None\<rparr>))) \<and>
   applications_ok (snd (post db0 400 (Some sam) \<lparr>data_job_id = Some 10, data_status = None\<rparr>)) \<and>
   applications_ok db1 \<and>
   applications_ok (snd (put db1 (Some ada) 1 \<lparr>data_job_id = Some 11, data_status = None\<rparr>)) \<and>
   applications_ok (snd (patch db1 (Some ada) 1 \<lparr>data_job_id = Some 11, data_status = None\<rparr>)) \<and>
   role sam = ''job_seeker'' \<and> find_job db1 10 = Some open_job \<and> employer open_job \<noteq> uid sam \<and>
   sams_application \<in> set (applications db1) \<and>
   job sams_application = 10 \<and> job_seeker sams_application = uid sam \<and>
   post db1 500 (Some sam) \<lparr>data_job_id = Some 10, data_status = None\<rparr>
     = (Inl (Uncaught IntegrityError), db1)"
proof -
  have u: "unique_together (applications db0)" "applications_ok db0" "applications_ok db1"
    by (simp_all add: applications_ok_def unique_together_def example_defs)
  have h: "role sam = ''job_seeker'' \<and> find_job db1 10 = Some open_job \<and>
      employer open_job \<noteq> uid sam \<and>
      (case None :: string option of None \<Rightarrow> True | Some x \<Rightarrow> x \<in> set STATUS_CHOICES) \<and>
      (\<exists>b \<in> set (applications db1). job b = 10 \<and> job_seeker b = uid sam)"
    by (simp add: find_job_def example_defs)
  have a: "applications (snd (post db0 400 (Some sam)
      \<lparr>data_job_id = Some 10, data_status = None\<rparr>)) = [sams_application]"
    by (simp add: application_defs example_defs)
  have m: "sams_application \<in> set (applications db1) \<and>
      job sams_application = 10 \<and> job_seeker sams_application = uid sam"
    by (simp add: example_defs)
  note t0 = duplicate_application_refused
    [where st=db0 and now=400 and actor="Some sam"
       and d="\<lparr>data_job_id = Some 10, data_status = None\<rparr>" and pk=1 and i=10 and u=sam
       and s=None and j=open_job]
  note t1 = duplicate_application_refused
    [where st=db1 and now=500 and actor="Some ada"
       and d="\<lparr>data_job_id = Some 11, data_status = None\<rparr>" and pk=1 and i=10 and u=sam
       and s=None and j=open_job]
  from t0 u have p: "unique_together (applications (snd (post db0 400 (Some sam)
      \<lparr>data_job_id = Some 10, data_status = None\<rparr>))) \<and>
    applications_ok (snd (post db0 400 (Some sam) \<lparr>data_job_id = Some 10, data_status = None\<rparr>))"
    by blast
  from t1 u have q: "applications_ok (snd (put db1 (Some ada) 1
        \<lparr>data_job_id = Some 11, data_status = None\<rparr>)) \<and>
      applications_ok (snd (patch db1 (Some ada) 1
        \<lparr>data_job_id = Some 11, data_status = None\<rparr>))"
    by blast
  from t1 h have r: "post db1 500 (Some sam) \<lparr>data_job_id = Some 10, data_status = None\<rparr>
     = (Inl (Uncaught IntegrityError), db1)"
    by blast
  from u p a h m q r show ?thesis by blast
qed

text \<open>
  The claim as stated fails on the second submission of \<open>sam\<close> for posting 10: the
  outcome is the uncaught \<^verbatim>\<open>IntegrityError\<close>, not \<open>Conflict\<close>.
\<close>

theorem duplicate_application_counterexample:
  "post db1 500 (Some sam) \<lparr>data_job_id = Some 10, data_status = None\<rparr>
     = (Inl (Uncaught IntegrityError), db1) \<and>
   fst (post db1 500 (Some sam) \<lparr>data_job_id = Some 10, data_status = None\<rparr>) \<noteq> Inl Conflict"
  by (simp add: application_defs example_defs)

text \<open>
  What a successful submission writes: the row carries the status of the request body when
  the body has one and \<^verbatim>\<open>'submitted'\<close> otherwise, it is appended to the table, and
  one "application submitted" task for the requesting user's address and the posting's title
  is queued.
\<close>

lemma created_application_status:
  assumes "post st now actor d = (Inr a, st')"
  shows "status a = (case data_status d of None \<Rightarrow> ''submitted'' | Some s \<Rightarrow> s) \<and>
         status a \<in> set STATUS_CHOICES \<and>
         applications st' = applications st @ [a] \<and>
         (\<exists>u j. actor = Some u \<and> job_seeker a = uid u \<and> find_job st (job a) = Some j \<and>
            outbox st' = outbox st @ [Send_application_submitted_email (email u) (title j)])"
  using assms
  by (auto simp: post_outcome STATUS_CHOICES_def split: option.splits if_splits)

text \<open>
  \<^bold>\<open>C5\<close> (the code departs from the claim). The claim: every successful submission is
  persisted with status \<^verbatim>\<open>'submitted'\<close> whatever the caller supplies, and the
  "application submitted" notification is dispatched to the job seeker. The serializer that
  the creation shares with the status updates leaves \<^verbatim>\<open>status\<close> writable, and
  \<^verbatim>\<open>post\<close> hands the validated data to the creation as it is. On the example store
  the job seeker \<open>sam\<close> sends \<^verbatim>\<open>status: 'accepted'\<close> with his application for
  posting 10: the row is persisted as accepted (the notification is queued). Without the
  field the row is persisted as submitted.
\<close>

theorem submission_persists_caller_status:
  "post db0 400 (Some sam) \<lparr>data_job_id = Some 10, data_status = Some ''accepted''\<rparr> =
     (Inr (sams_application\<lparr>status := ''accepted''\<rparr>),
      db0\<lparr>applications := [sams_application\<lparr>status := ''accepted''\<rparr>], next_app_id := 2,
          outbox := [Send_application_submitted_email ''sam@example.com'' ''Engineer'']\<rparr>) \<and>
   status (sams_application\<lparr>status := ''accepted''\<rparr>) \<noteq> ''submitted'' \<and>
   post db0 400 (Some sam) \<lparr>data_job_id = Some 10, data_status = None\<rparr> =
     (Inr sams_application,
      db0\<lparr>applications := [sams_application], next_app_id := 2,
          outbox := [Send_application_submitted_email ''sam@example.com'' ''Engineer'']\<rparr>) \<and>
   status sams_application = ''submitted''"
  by (simp add: application_defs example_defs)

text \<open>
  \<^bold>\<open>C9\<close>. A job seeker can apply to an inactive posting. For a posting that exists and
  is not active, a submission without a status field succeeds exactly when the actor is a job
  seeker, is not the posting's employer, and has no application for it yet: the active flag
  is no precondition. When it succeeds, the new application, with status
  \<^verbatim>\<open>'submitted'\<close>, is the row added to the table, the sequence advances, the
  "application submitted" task is queued, and nothing else in the store changes.
\<close>

theorem apply_to_inactive_job:
  assumes "find_job st i = Some j" and "\<not> is_active j"
  shows "((\<exists>a st'. post st now (Some u) \<lparr>data_job_id = Some i, data_status = None\<rparr> = (Inr a, st'))
          = (role u = ''job_seeker'' \<and> employer j \<noteq> uid u \<and>
             \<not> (\<exists>b \<in> set (applications st). job b = i \<and> job_seeker b = uid u))) \<and>
         (role u = ''job_seeker'' \<and> employer j \<noteq> uid u \<and>
          \<not> (\<exists>b \<in> set (applications st). job b = i \<and> job_seeker b = uid u) \<longrightarrow>
            post st now (Some u) \<lparr>data_job_id = Some i, data_status = None\<rparr> =
              (Inr \<lparr>app_id = next_app_id st, job = i, job_seeker = uid u,
                    status = ''submitted'', applied_at = now\<rparr>,
               st\<lparr>applications := applications st @
                     [\<lparr>app_id = next_app_id st, job = i, job_seeker = uid u,
                       status = ''submitted'', applied_at = now\<rparr>],
                   next_app_id := Suc (next_app_id st),
                   outbox := outbox st @
                     [Send_application_submitted_email (email u) (title j)]\<rparr>))"
  using assms by (auto simp: post_outcome)

theorem apply_to_inactive_job_witness:
  "find_job db0 11 = Some closed_job \<and> \<not> is_active closed_job \<and>
   role sam = ''job_seeker'' \<and> employer closed_job \<noteq> uid sam \<and>
   \<not> (\<exists>b \<in> set (applications db0). job b = 11 \<and> job_seeker b = uid sam) \<and>
   post db0 400 (Some sam) \<lparr>data_job_id = Some 11, data_status = None\<rparr> =
     (Inr \<lparr>app_id = 1, job = 11, job_seeker = 3, status = ''submitted'', applied_at = 400\<rparr>,
      db0\<lparr>applications :=
            [\<lparr>app_id = 1, job = 11, job_seeker = 3, status = ''submitted'', applied_at = 400\<rparr>],
          next_app_id := 2,
          outbox := [Send_application_submitted_email ''sam@example.com'' ''Analyst'']\<rparr>) \<and>
   applications (snd (post db0 400 (Some sam) \<lparr>data_job_id = Some 11, data_status = None\<rparr>))
     = [\<lparr>app_id = 1, job = 11, job_seeker = 3, status = ''submitted'', applied_at = 400\<rparr>]"
proof -
  have h1: "find_job db0 11 = Some closed_job" by (simp add: find_job_def example_defs)
  have h2: "\<not> is_active closed_job" by (simp add: example_defs)
  have r: "role sam = ''job_seeker'' \<and> employer closed_job \<noteq> uid sam \<and>
     \<not> (\<exists>b \<in> set (applications db0). job b = 11 \<and> job_seeker b = uid sam)"
    by (simp add: example_defs)
  from apply_to_inactive_job[OF h1 h2, of 400 sam] r
  have p: "post db0 400 (Some sam) \<lparr>data_job_id = Some 11, data_status = None\<rparr> =
      (Inr \<lparr>app_id = next_app_id db0, job = 11, job_seeker = uid sam,
            status = ''submitted'', applied_at = 400\<rparr>,
       db0\<lparr>applications := applications db0 @
             [\<lparr>app_id = next_app_id db0, job = 11, job_seeker = uid sam,
               status = ''submitted'', applied_at = 400\<rparr>],
           next_app_id := Suc (next_app_id db0),
           outbox := outbox db0 @
             [Send_application_submitted_email (email sam) (title closed_job)]\<rparr>)"
    by blast
  have q: "post db0 400 (Some sam) \<lparr>data_job_id = Some 11, data_status = None\<rparr> =
     (Inr \<lparr>app_id = 1, job = 11, job_seeker = 3, status = ''submitted'', applied_at = 400\<rparr>,
      db0\<lparr>applications :=
            [\<lparr>app_id = 1, job = 11, job_seeker = 3, status = ''submitted'', applied_at = 400\<rparr>],
          next_app_id := 2,
          outbox := [Send_application_submitted_email ''sam@example.com'' ''Analyst'']\<rparr>)"
    unfolding p by (simp add: example_defs)
  from h1 h2 r q show ?thesis by simp
qed

subsection \<open>Retrieving a job posting\<close>

text \<open>
  \<^verbatim>\<open>GET\<close> on a posting, for an authenticated actor: 404 when no posting has the key;
  403 when the actor is an employer who does not own the posting; the posting otherwise.
\<close>

lemma retrieve_outcome:
  "retrieve st (Some u) i =
     (case find_job st i of
        None \<Rightarrow> Inl NotFound
      | Some j \<Rightarrow>
          if role u = ''employer'' \<and> uid u \<noteq> employer j then Inl Forbidden else Inr j)"
  by (simp add: retrieve_def job_get_object_def job_detail_get_permissions_def
      permission_denied_def split: option.splits)

text \<open>
  \<^bold>\<open>C3\<close> (the code departs from the claim). The claim: a posting that the actor may not
  view (not active, actor neither its employer nor an admin) is answered with
  \<open>NotFound\<close>, as if it did not exist. The view documents the same for job seekers
  (active postings only, 404 for a posting that "does not exist or is inaccessible"), and its
  \<^verbatim>\<open>get_queryset\<close> filters accordingly; but \<^verbatim>\<open>get_object\<close> looks the posting
  up among all postings and never consults the filter. On the example store the job seeker
  \<open>sam\<close>, who may not view the inactive posting 11, is handed it; the employer
  \<open>bob\<close>, who may not view it either, is refused with \<open>Forbidden\<close>, while the
  missing key 12 is answered with \<open>NotFound\<close>: the refusal tells the posting apart from
  an absent one.
\<close>

theorem retrieve_inactive_posting_divergence:
  "find_job db0 11 = Some closed_job \<and> \<not> is_active closed_job \<and>
   \<not> canViewJob_spec sam closed_job \<and> retrieve db0 (Some sam) 11 = Inr closed_job \<and>
   \<not> canViewJob_spec bob closed_job \<and> retrieve db0 (Some bob) 11 = Inl Forbidden \<and>
   find_job db0 12 = None \<and> retrieve db0 (Some sam) 12 = Inl NotFound \<and>
   retrieve db0 (Some bob) 12 = Inl NotFound"
  by (simp add: retrieve_def job_get_object_def job_detail_get_permissions_def
      permission_denied_def find_job_def canViewJob_spec_def example_defs)

text \<open>
  The permission list of \<^verbatim>\<open>GET\<close> holds \<^verbatim>\<open>IsJobOwner\<close> for every employer, so
  an employer is also refused the active posting of another employer.
\<close>

lemma employer_refused_active_posting:
  "is_active open_job \<and> retrieve db0 (Some bob) 10 = Inl Forbidden"
  by (simp add: retrieve_outcome find_job_def example_defs)

subsection \<open>Listing job postings\<close>

lemma set_order_by: "set (order_by_created_at_desc js) = set js"
  by (simp add: order_by_created_at_desc_def)

lemma mset_order_by: "mset (order_by_created_at_desc js) = mset js"
  by (simp add: order_by_created_at_desc_def)

lemma newest_first:
  "sorted_wrt (\<lambda>a b. created_at b \<le> created_at a) (order_by_created_at_desc js)"
proof -
  have "sorted (map created_at (sort_key created_at js))" by (rule sorted_sort_key)
  then have "sorted_wrt (\<lambda>a b. created_at a \<le> created_at b) (sort_key created_at js)"
    by (simp add: sorted_map)
  then show ?thesis by (simp add: order_by_created_at_desc_def sorted_wrt_rev)
qed

text \<open>
  The cache entry is written by \<open>jobs_get_queryset\<close> only, and dropped when a posting
  is created: whatever it holds was the list of active postings when it was stored.
\<close>

lemma cache_get_active:
  "cache_holds_active st \<Longrightarrow> cache_get st now = Some v \<Longrightarrow> list_all is_active v"
  by (auto simp: cache_holds_active_def cache_get_def split: option.splits if_splits)

lemma empty_cache_holds_active: "cache_holds_active (cache_delete st)"
  by (simp add: cache_holds_active_def cache_delete_def)

lemma jobs_get_queryset_keeps_cache:
  "cache_holds_active st \<Longrightarrow> cache_holds_active (snd (jobs_get_queryset st now u))"
  by (auto simp: jobs_get_queryset_def cache_holds_active_def cache_set_def Let_def
      list_all_iff set_order_by split: option.splits)

text \<open>
  \<^bold>\<open>C6\<close>. For a job seeker the list has no posting with \<^verbatim>\<open>is_active = false\<close>
  (on a cache hit it is the list stored up to fifteen minutes earlier, whose entries were
  all active then); for an employer the list is exactly the postings the employer owns,
  active or not, newest first.
\<close>

theorem list_jobs_scope:
  "(role u = ''job_seeker'' \<and> cache_holds_active st \<longrightarrow>
      list_all is_active (fst (jobs_get_queryset st now u))) \<and>
   (role u = ''employer'' \<longrightarrow>
      mset (fst (jobs_get_queryset st now u))
        = mset (filter (\<lambda>j. employer j = uid u) (jobs st)) \<and>
      sorted_wrt (\<lambda>a b. created_at b \<le> created_at a) (fst (jobs_get_queryset st now u)))"
proof (intro conjI impI)
  assume a: "role u = ''job_seeker'' \<and> cache_holds_active st"
  show "list_all is_active (fst (jobs_get_queryset st now u))"
  proof (cases "cache_get st now")
    case None
    with a show ?thesis
      by (simp add: jobs_get_queryset_def Let_def list_all_iff set_order_by)
  next
    case (Some v)
    with a cache_get_active[of st now v] show ?thesis
      by (simp add: jobs_get_queryset_def)
  qed
next
  assume "role u = ''employer''"
  then show "mset (fst (jobs_get_queryset st now u))
        = mset (filter (\<lambda>j. employer j = uid u) (jobs st))"
    by (simp add: jobs_get_queryset_def mset_order_by)
next
  assume "role u = ''employer''"
  then show "sorted_wrt (\<lambda>a b. created_at b \<le> created_at a) (fst (jobs_get_queryset st now u))"
    by (simp add: jobs_get_queryset_def newest_first)
qed

theorem list_jobs_scope_witness:
  "role sam = ''job_seeker'' \<and> cache_holds_active db0 \<and>
   fst (jobs_get_queryset db0 1000 sam) = [open_job] \<and>
   list_all is_active (fst (jobs_get_queryset db0 1000 sam)) \<and>
   role ada = ''employer'' \<and>
   fst (jobs_get_queryset db0 1000 ada) = [closed_job, open_job] \<and>
   mset (fst (jobs_get_queryset db0 1000 ada))
     = mset (filter (\<lambda>j. employer j = uid ada) (jobs db0)) \<and>
   sorted_wrt (\<lambda>a b. created_at b \<le> created_at a) (fst (jobs_get_queryset db0 1000 ada))"
proof -
  have h: "role sam = ''job_seeker'' \<and> cache_holds_active db0"
    by (simp add: cache_holds_active_def example_defs)
  have e: "role ada = ''employer''" by (simp add: example_defs)
  have v1: "fst (jobs_get_queryset db0 1000 sam) = [open_job]"
    by (simp add: jobs_get_queryset_def cache_get_def order_by_created_at_desc_def
        Let_def example_defs)
  have v2: "fst (jobs_get_queryset db0 1000 ada) = [closed_job, open_job]"
    by (simp add: jobs_get_queryset_def order_by_created_at_desc_def example_defs)
  from list_jobs_scope[where u=sam and st=db0 and now=1000] h
  have a: "list_all is_active (fst (jobs_get_queryset db0 1000 sam))" by blast
  from list_jobs_scope[where u=ada and st=db0 and now=1000] e
  have b: "mset (fst (jobs_get_queryset db0 1000 ada))
     = mset (filter (\<lambda>j. employer j = uid ada) (jobs db0)) \<and>
   sorted_wrt (\<lambda>a b. created_at b \<le> created_at a) (fst (jobs_get_queryset db0 1000 ada))"
    by blast
  from h e v1 v2 a b show ?thesis by blast
qed

subsection \<open>Verifying an e-mail address\<close>

lemma find_after_save:
  "uid y = k \<Longrightarrow> find (\<lambda>x. uid x = k) xs = Some z \<Longrightarrow>
   find (\<lambda>x. uid x = k) (map (\<lambda>x. if uid x = k then y else x) xs) = Some y"
  by (induction xs) (auto split: if_splits)

lemma token_gone:
  assumes "distinct (map token ts)" and "find (\<lambda>v. token v = t) ts = Some vt"
  shows "find (\<lambda>v. token v = t) (filter (\<lambda>v. vt_id v \<noteq> vt_id vt) ts) = None"
proof -
  from assms(2) have vt: "token vt = t" "vt \<in> set ts"
    using find_Some_holds[of "\<lambda>v. token v = t" ts vt] by simp_all
  from assms(1) have inj: "inj_on token (set ts)" by (simp add: distinct_map)
  have "\<And>v. v \<in> set ts \<Longrightarrow> token v = t \<Longrightarrow> v = vt"
    using inj vt by (auto dest: inj_onD)
  then show ?thesis by (auto simp: find_None_iff)
qed

text \<open>
  \<^bold>\<open>C7\<close> (amended). The claim: a first call on an unverified user marks the user
  verified and deletes the token, and calling a second time with the token, its user being
  verified by then, returns success without mutating any state. What holds, for a token of
  the table (the column is unique) that points to a user: when the user is not verified, the
  call answers 200, sets the flag of that user, deletes the row of the token and changes
  nothing else; the token is consumed, so a second call with it is answered with 400
  ("Invalid or expired token") and changes nothing. The answer 200 without any change
  ("Email already verified") is given only to a token whose row still exists while its user
  is verified. In every case the effect on the store is idempotent: a second call with the
  same token leaves the store as the first call left it.
\<close>

theorem verify_email_single_use:
  assumes "distinct (map token (verification_tokens st))"
    and "find (\<lambda>v. token v = t) (verification_tokens st) = Some vt"
    and "find_user st (vt_user vt) = Some u"
  shows "(is_email_verified u \<longrightarrow>
            verify_email st (Some t) = (Inr (200, Message ''Email already verified''), st)) \<and>
         (\<not> is_email_verified u \<longrightarrow>
            verify_email st (Some t) =
              (Inr (200, Message ''Email verified successfully''),
               st\<lparr>users := map (\<lambda>x. if uid x = uid u then u\<lparr>is_email_verified := True\<rparr> else x)
                              (users st),
                  verification_tokens :=
                    filter (\<lambda>v. vt_id v \<noteq> vt_id vt) (verification_tokens st)\<rparr>) \<and>
            find_user (snd (verify_email st (Some t))) (uid u)
              = Some (u\<lparr>is_email_verified := True\<rparr>) \<and>
            find (\<lambda>v. token v = t) (verification_tokens (snd (verify_email st (Some t))))
              = None \<and>
            verify_email (snd (verify_email st (Some t))) (Some t)
              = (Inr (400, Error ''Invalid or expired token''),
                 snd (verify_email st (Some t)))) \<and>
         snd (verify_email (snd (verify_email st (Some t))) (Some t))
           = snd (verify_email st (Some t))"
proof -
  from assms(3) have k: "uid u = vt_user vt"
    using find_Some_holds[of "\<lambda>x. uid x = vt_user vt" "users st" u]
    by (simp add: find_user_def)
  have gone: "find (\<lambda>v. token v = t)
      (filter (\<lambda>v. vt_id v \<noteq> vt_id vt) (verification_tokens st)) = None"
    by (rule token_gone[OF assms(1,2)])
  have saved: "find (\<lambda>x. uid x = uid u)
      (map (\<lambda>x. if uid x = uid u then u\<lparr>is_email_verified := True\<rparr> else x) (users st))
      = Some (u\<lparr>is_email_verified := True\<rparr>)"
    using assms(3) k
    by (intro find_after_save[where z=u]) (simp_all add: find_user_def)
  show ?thesis
  proof (cases "is_email_verified u")
    case True
    with assms show ?thesis by (simp add: verify_email_def)
  next
    case False
    with assms gone saved show ?thesis
      by (simp add: verify_email_def find_user_def)
  qed
qed

theorem verify_email_single_use_witness:
  "distinct (map token (verification_tokens db0)) \<and>
   find (\<lambda>v. token v = 77) (verification_tokens db0) = Some \<lparr>vt_id = 1, vt_user = 3, token = 77\<rparr> \<and>
   find_user db0 3 = Some sam \<and> \<not> is_email_verified sam \<and>
   verify_email db0 (Some 77) =
     (Inr (200, Message ''Email verified successfully''),
      db0\<lparr>users := [ada, bob, sam\<lparr>is_email_verified := True\<rparr>, root],
          verification_tokens := []\<rparr>) \<and>
   find_user (snd (verify_email db0 (Some 77))) (uid sam) = Some (sam\<lparr>is_email_verified := True\<rparr>) \<and>
   find (\<lambda>v. token v = 77) (verification_tokens (snd (verify_email db0 (Some 77)))) = None \<and>
   verify_email (snd (verify_email db0 (Some 77))) (Some 77)
     = (Inr (400, Error ''Invalid or expired token''), snd (verify_email db0 (Some 77))) \<and>
   find_user db0 (vt_user \<lparr>vt_id = 9, vt_user = 1, token = 5\<rparr>) = Some ada \<and> is_email_verified ada \<and>
   verify_email (db0\<lparr>verification_tokens := [\<lparr>vt_id = 9, vt_user = 1, token = 5\<rparr>]\<rparr>) (Some 5)
     = (Inr (200, Message ''Email already verified''),
        db0\<lparr>verification_tokens := [\<lparr>vt_id = 9, vt_user = 1, token = 5\<rparr>]\<rparr>)"
proof -
  have d: "distinct (map token (verification_tokens db0))" by (simp add: example_defs)
  have f: "find (\<lambda>v. token v = 77) (verification_tokens db0)
      = Some \<lparr>vt_id = 1, vt_user = 3, token = 77\<rparr>" by (simp add: example_defs)
  have u: "find_user db0 (vt_user \<lparr>vt_id = 1, vt_user = 3, token = 77\<rparr>) = Some sam"
    by (simp add: find_user_def example_defs)
  have n: "\<not> is_email_verified sam" by (simp add: example_defs)
  have v: "verify_email db0 (Some 77) =
     (Inr (200, Message ''Email verified successfully''),
      db0\<lparr>users := [ada, bob, sam\<lparr>is_email_verified := True\<rparr>, root],
          verification_tokens := []\<rparr>)"
    by (simp add: verify_email_def find_user_def example_defs)
  let ?st = "db0\<lparr>verification_tokens := [\<lparr>vt_id = 9, vt_user = 1, token = 5\<rparr>]\<rparr>"
  have d2: "distinct (map token (verification_tokens ?st))" by simp
  have f2: "find (\<lambda>v. token v = 5) (verification_tokens ?st)
      = Some \<lparr>vt_id = 9, vt_user = 1, token = 5\<rparr>" by simp
  have u2: "find_user ?st (vt_user \<lparr>vt_id = 9, vt_user = 1, token = 5\<rparr>) = Some ada"
    by (simp add: find_user_def example_defs)
  have u2': "find_user db0 (vt_user \<lparr>vt_id = 9, vt_user = 1, token = 5\<rparr>) = Some ada"
    by (simp add: find_user_def example_defs)
  have a: "is_email_verified ada" by (simp add: example_defs)
  note w1 = verify_email_single_use[OF d f u]
  note w2 = verify_email_single_use[OF d2 f2 u2]
  from w1 n have p: "find_user (snd (verify_email db0 (Some 77))) (uid sam)
        = Some (sam\<lparr>is_email_verified := True\<rparr>) \<and>
      find (\<lambda>v. token v = 77) (verification_tokens (snd (verify_email db0 (Some 77)))) = None \<and>
      verify_email (snd (verify_email db0 (Some 77))) (Some 77)
        = (Inr (400, Error ''Invalid or expired token''), snd (verify_email db0 (Some 77)))"
    by blast
  from w2 a have q: "verify_email ?st (Some 5)
      = (Inr (200, Message ''Email already verified''), ?st)" by blast
  from d f u n v p q u2' a show ?thesis by simp
qed

text \<open>
  The claim as stated fails on the example store: the first call with token 77 verifies
  \<open>sam\<close>; the second call with token 77, whose user is verified by then, is answered
  with 400 and not with success.
\<close>

theorem second_verification_counterexample:
  "fst (verify_email db0 (Some 77)) = Inr (200, Message ''Email verified successfully'') \<and>
   find_user (snd (verify_email db0 (Some 77))) 3 = Some (sam\<lparr>is_email_verified := True\<rparr>) \<and>
   is_email_verified (sam\<lparr>is_email_verified := True\<rparr>) \<and>
   fst (verify_email (snd (verify_email db0 (Some 77))) (Some 77))
     = Inr (400, Error ''Invalid or expired token'') \<and>
   fst (verify_email (snd (verify_email db0 (Some 77))) (Some 77))
     \<noteq> Inr (200, Message ''Email already verified'')"
  by (simp add: verify_email_def find_user_def example_defs)

subsection \<open>Registering without a role\<close>

lemma validate_role_default: "validate_role None = validate_role (Some ''job_seeker'')"
  by (simp add: validate_role_def ROLE_CHOICES_def)

lemma register_is_valid_default:
  "register_is_valid fw st (d\<lparr>r_role := None\<rparr>)
     = register_is_valid fw st (d\<lparr>r_role := Some ''job_seeker''\<rparr>)"
  by (simp add: register_is_valid_def validate_role_default split: sum.splits)

lemma register_is_valid_role:
  "register_is_valid fw st (d\<lparr>r_role := None\<rparr>) = Inr v \<Longrightarrow> r_role v = Some ''job_seeker''"
  by (auto simp: register_is_valid_def validate_role_def split: sum.splits)

lemma register_is_valid_email:
  "register_is_valid fw st d = Inr v \<Longrightarrow>
   \<exists>e x. r_email d = Some e \<and> r_email v = Some x \<and> x = strip e \<and> x \<noteq> [] \<and>
         length x \<le> 254 \<and> email_validator fw x \<and> (\<forall>u \<in> set (users st). email u \<noteq> x)"
  by (auto simp: register_is_valid_def validate_email_def char_field_def
      split: sum.splits option.splits if_splits)

lemma create_job_seeker:
  assumes "r_role v = Some ''job_seeker''" and "create fw st nid ntok v = (Inr u, st')"
  shows "role u = ''job_seeker'' \<and> u \<in> set (users st') \<and>
         job_seeker_profiles st' = job_seeker_profiles st @
           [\<lparr>jsp_user = uid u, resume = None, skills = [], experience = 0\<rparr>] \<and>
         employer_profiles st' = employer_profiles st"
  using assms
  unfolding create_def create_user_def create_job_seeker_profile_def
    create_employer_profile_def create_verification_token_def Let_def
  by (auto split: option.splits if_splits prod.splits sum.splits)

lemma create_succeeds:
  assumes "r_email v = Some e" and "e \<noteq> []" and "r_password v = Some p"
    and "r_role v = Some ''job_seeker''"
    and "\<forall>x \<in> set (users st). email x \<noteq> normalize_email fw e \<and> uid x \<noteq> nid"
    and "\<forall>x \<in> set (job_seeker_profiles st). jsp_user x \<noteq> nid"
    and "\<forall>x \<in> set (verification_tokens st). vt_user x \<noteq> nid \<and> token x \<noteq> ntok"
  shows "\<exists>w s. create fw st nid ntok v = (Inr w, s)"
  using assms
  by (auto simp: create_def create_user_def create_job_seeker_profile_def
      create_verification_token_def Let_def)

text \<open>
  \<^bold>\<open>C10\<close>. The role is not required and defaults to \<^verbatim>\<open>'job_seeker'\<close>: a
  registration without the key behaves as the same registration with
  \<^verbatim>\<open>role: 'job_seeker'\<close>; when it succeeds, the user it creates has that role and
  one \<^verbatim>\<open>JobSeekerProfile\<close> row (empty skills, experience 0) is added for the user,
  and no employer profile; and it does succeed whenever the other fields of the body pass
  the validation of the serializer (the trimmed address is not blank, has at most 254
  characters and no null character, passes the syntax check and is not in use; the trimmed
  password is not blank and has no null character; the names and the phone number, where
  given, pass their fields) and the normalised address and the fresh keys are not in use.
\<close>

theorem register_role_defaults_to_job_seeker:
  "register fw st nid ntok (d\<lparr>r_role := None\<rparr>)
     = register fw st nid ntok (d\<lparr>r_role := Some ''job_seeker''\<rparr>) \<and>
   (register fw st nid ntok (d\<lparr>r_role := None\<rparr>) = (Inr u, st') \<longrightarrow>
      role u = ''job_seeker'' \<and> u \<in> set (users st') \<and>
      job_seeker_profiles st' = job_seeker_profiles st @
        [\<lparr>jsp_user = uid u, resume = None, skills = [], experience = 0\<rparr>] \<and>
      employer_profiles st' = employer_profiles st) \<and>
   (r_email d = Some e \<and> char_field False (Some 254) e = Inr e' \<and> email_validator fw e' \<and>
    r_password d = Some p \<and> char_field False None p = Inr p' \<and>
    optional_char_field (Some 150) (r_first_name d) = Inr fn \<and>
    optional_char_field (Some 150) (r_last_name d) = Inr ln \<and>
    optional_char_field None (r_phone_number d) = Inr ph \<and>
    (\<forall>x \<in> set (users st).
        email x \<noteq> e' \<and> email x \<noteq> normalize_email fw e' \<and> uid x \<noteq> nid) \<and>
    (\<forall>x \<in> set (job_seeker_profiles st). jsp_user x \<noteq> nid) \<and>
    (\<forall>x \<in> set (verification_tokens st). vt_user x \<noteq> nid \<and> token x \<noteq> ntok) \<longrightarrow>
      (\<exists>w s. register fw st nid ntok (d\<lparr>r_role := None\<rparr>) = (Inr w, s)))"
proof -
  have eq: "register fw st nid ntok (d\<lparr>r_role := None\<rparr>)
     = register fw st nid ntok (d\<lparr>r_role := Some ''job_seeker''\<rparr>)"
    by (simp add: register_def register_is_valid_default)
  have created: "role u = ''job_seeker'' \<and> u \<in> set (users st') \<and>
      job_seeker_profiles st' = job_seeker_profiles st @
        [\<lparr>jsp_user = uid u, resume = None, skills = [], experience = 0\<rparr>] \<and>
      employer_profiles st' = employer_profiles st"
    if a: "register fw st nid ntok (d\<lparr>r_role := None\<rparr>) = (Inr u, st')"
  proof -
    from a obtain v where v: "register_is_valid fw st (d\<lparr>r_role := None\<rparr>) = Inr v"
      and c: "create fw st nid ntok v = (Inr u, st')"
      by (auto simp: register_def split: sum.splits)
    from create_job_seeker[OF register_is_valid_role[OF v] c] show ?thesis .
  qed
  have succeeds: "\<exists>w s. register fw st nid ntok (d\<lparr>r_role := None\<rparr>) = (Inr w, s)"
    if h: "r_email d = Some e \<and> char_field False (Some 254) e = Inr e' \<and>
      email_validator fw e' \<and>
      r_password d = Some p \<and> char_field False None p = Inr p' \<and>
      optional_char_field (Some 150) (r_first_name d) = Inr fn \<and>
      optional_char_field (Some 150) (r_last_name d) = Inr ln \<and>
      optional_char_field None (r_phone_number d) = Inr ph \<and>
      (\<forall>x \<in> set (users st).
          email x \<noteq> e' \<and> email x \<noteq> normalize_email fw e' \<and> uid x \<noteq> nid) \<and>
      (\<forall>x \<in> set (job_seeker_profiles st). jsp_user x \<noteq> nid) \<and>
      (\<forall>x \<in> set (verification_tokens st). vt_user x \<noteq> nid \<and> token x \<noteq> ntok)"
  proof -
    let ?v = "\<lparr>r_email = Some e', r_password = Some p', r_first_name = fn, r_last_name = ln,
               r_phone_number = ph, r_role = Some ''job_seeker''\<rparr>"
    from h have v: "register_is_valid fw st (d\<lparr>r_role := None\<rparr>) = Inr ?v"
      by (auto simp: register_is_valid_def validate_email_def validate_password_def
          validate_role_def)
    from h have ne: "e' \<noteq> []"
      by (auto simp: char_field_def split: if_splits)
    from h have "\<exists>w s. create fw st nid ntok ?v = (Inr w, s)"
      by (intro create_succeeds[where e=e' and p=p']) (use ne in auto)
    with v show ?thesis by (simp add: register_def)
  qed
  from eq created succeeds show ?thesis by blast
qed

theorem register_role_defaults_to_job_seeker_witness:
  "register example_django db0 5 78
      \<lparr>r_email = Some '' eve@example.com'', r_password = Some ''pw'',
       r_first_name = Some ''Eve'', r_last_name = None, r_phone_number = None, r_role = None\<rparr>
     = (Inr \<lparr>uid = 5, email = ''eve@example.com'', password = ''pw'', first_name = ''Eve'',
             last_name = [], phone_number = None, role = ''job_seeker'',
             is_email_verified = False\<rparr>,
        db0\<lparr>users := users db0 @
              [\<lparr>uid = 5, email = ''eve@example.com'', password = ''pw'', first_name = ''Eve'',
                last_name = [], phone_number = None, role = ''job_seeker'',
                is_email_verified = False\<rparr>],
            job_seeker_profiles :=
              [\<lparr>jsp_user = 5, resume = None, skills = [], experience = 0\<rparr>],
            verification_tokens := verification_tokens db0 @
              [\<lparr>vt_id = 2, vt_user = 5, token = 78\<rparr>],
            next_token_id := 3,
            outbox := [Send_verification_email 5 78]\<rparr>) \<and>
   job_seeker_profiles (snd (register example_django db0 5 78
      \<lparr>r_email = Some '' eve@example.com'', r_password = Some ''pw'',
       r_first_name = Some ''Eve'', r_last_name = None, r_phone_number = None, r_role = None\<rparr>))
     = job_seeker_profiles db0 @ [\<lparr>jsp_user = 5, resume = None, skills = [], experience = 0\<rparr>] \<and>
   fst (register example_django db0 5 78
      \<lparr>r_email = Some ''not-an-email'', r_password = Some ''pw'',
       r_first_name = Some ''Eve'', r_last_name = None, r_phone_number = None, r_role = None\<rparr>)
     = Inl ValidationError"
proof -
  let ?d = "\<lparr>r_email = Some '' eve@example.com'', r_password = Some ''pw'',
       r_first_name = Some ''Eve'', r_last_name = None, r_phone_number = None, r_role = None\<rparr>"
  let ?u = "\<lparr>uid = 5, email = ''eve@example.com'', password = ''pw'', first_name = ''Eve'',
             last_name = [], phone_number = None, role = ''job_seeker'',
             is_email_verified = False\<rparr>"
  let ?s = "db0\<lparr>users := users db0 @ [?u],
            job_seeker_profiles :=
              [\<lparr>jsp_user = 5, resume = None, skills = [], experience = 0\<rparr>],
            verification_tokens := verification_tokens db0 @
              [\<lparr>vt_id = 2, vt_user = 5, token = 78\<rparr>],
            next_token_id := 3,
            outbox := [Send_verification_email 5 78]\<rparr>"
  have r: "register example_django db0 5 78 (?d\<lparr>r_role := None\<rparr>) = (Inr ?u, ?s)"
    by (simp add: register_defs create_def create_user_def create_job_seeker_profile_def
        create_verification_token_def example_django_def example_defs Let_def)
  have n: "fst (register example_django db0 5 78
      \<lparr>r_email = Some ''not-an-email'', r_password = Some ''pw'',
       r_first_name = Some ''Eve'', r_last_name = None, r_phone_number = None, r_role = None\<rparr>)
     = Inl ValidationError"
    by (simp add: register_defs example_django_def)
  from register_role_defaults_to_job_seeker
    [where fw=example_django and st=db0 and nid=5 and ntok=78 and d="?d" and u="?u"
       and st'="?s"] r
  have "job_seeker_profiles ?s = job_seeker_profiles db0 @
      [\<lparr>jsp_user = uid ?u, resume = None, skills = [], experience = 0\<rparr>]"
    by blast
  with r n show ?thesis by simp
qed

end
